theory Spec2Isabelle
  imports Main "HOL-Library.Word"
begin

section \<open>Strings of the host language\<close>

text \<open>
  A JavaScript string is a sequence of UTF-16 code units. The regular expressions of
  \<^verbatim>\<open>imageHelpers.ts\<close> carry no \<^verbatim>\<open>u\<close> flag, so they read a string one
  code unit at a time. \<open>js\<close> writes an ASCII literal of the source as such a string.
\<close>

type_synonym code_unit = "16 word"
type_synonym jsstring = "code_unit list"

definition js :: "string \<Rightarrow> jsstring" where
  "js s = map (\<lambda>c. of_char c) s"

text \<open>
  The character class escapes of ECMAScript: \<^verbatim>\<open>\w\<close> is \<^verbatim>\<open>[A-Za-z0-9_]\<close>;
  \<^verbatim>\<open>\s\<close> is WhiteSpace and LineTerminator (tab, line feed, vertical tab, form feed,
  carriage return, space, no-break space, U+1680, U+2000 to U+200A, U+2028, U+2029,
  U+202F, U+205F, U+3000 and U+FEFF).
\<close>

definition regex_w :: "code_unit \<Rightarrow> bool" where
  "regex_w c =
     ((0x41 \<le> c \<and> c \<le> 0x5A) \<or> (0x61 \<le> c \<and> c \<le> 0x7A) \<or>
      (0x30 \<le> c \<and> c \<le> 0x39) \<or> c = 0x5F)"

definition regex_s :: "code_unit \<Rightarrow> bool" where
  "regex_s c =
     ((0x09 \<le> c \<and> c \<le> 0x0D) \<or> c = 0x20 \<or> c = 0xA0 \<or> c = 0x1680 \<or>
      (0x2000 \<le> c \<and> c \<le> 0x200A) \<or> c = 0x2028 \<or> c = 0x2029 \<or> c = 0x202F \<or>
      c = 0x205F \<or> c = 0x3000 \<or> c = 0xFEFF)"

text \<open>
  \<^verbatim>\<open>s.replace(/[...]/g, r)\<close> for a class of single code units: every code unit
  of the class is replaced by \<open>r\<close>, every other one is kept, in order.
\<close>

fun replaceAll :: "(code_unit \<Rightarrow> bool) \<Rightarrow> jsstring \<Rightarrow> jsstring \<Rightarrow> jsstring" where
  "replaceAll cls r [] = []"
| "replaceAll cls r (c # cs) =
     (if cls c then r @ replaceAll cls r cs else c # replaceAll cls r cs)"

section \<open>Symbol stripping\<close>

text \<open>
  \<^verbatim>\<open>
  export function removeSymbolsFromTitle(title: string): string {
    return title.replace(/[^\w\s.,()-]/g, '');
  }
  \<close>
  \<open>titleClass\<close> is the class between the brackets after the \<^verbatim>\<open>^\<close>:
  \<^verbatim>\<open>\w\<close>, \<^verbatim>\<open>\s\<close>, period, comma, the two parentheses and the hyphen.
\<close>

definition titleClass :: "code_unit \<Rightarrow> bool" where
  "titleClass c =
     (regex_w c \<or> regex_s c \<or> c = 0x2E \<or> c = 0x2C \<or> c = 0x28 \<or> c = 0x29 \<or> c = 0x2D)"

definition removeSymbolsFromTitle :: "jsstring \<Rightarrow> jsstring" where
  "removeSymbolsFromTitle title = replaceAll (\<lambda>c. \<not> titleClass c) [] title"

text \<open>
  The kept set as the specification words it: alphanumeric characters, spaces, commas,
  periods, hyphens and parentheses.
\<close>

definition alphanumeric :: "code_unit \<Rightarrow> bool" where
  "alphanumeric c =
     ((0x41 \<le> c \<and> c \<le> 0x5A) \<or> (0x61 \<le> c \<and> c \<le> 0x7A) \<or> (0x30 \<le> c \<and> c \<le> 0x39))"

definition keptBySpec :: "code_unit \<Rightarrow> bool" where
  "keptBySpec c =
     (alphanumeric c \<or> c = 0x20 \<or> c = 0x2C \<or> c = 0x2E \<or> c = 0x2D \<or> c = 0x28 \<or> c = 0x29)"

section \<open>Category matcher\<close>

text \<open>
  \<^verbatim>\<open>String.prototype.toLowerCase\<close> is a built-in of the host language whose Unicode
  tables are not part of the repository: the matchers below take it as the parameter
  \<open>toLowerCase\<close>, and every general theorem holds for any such function. On a string
  of ASCII code units the built-in is \<open>asciiToLowerCase\<close>.
\<close>

definition asciiToLowerCase :: "jsstring \<Rightarrow> jsstring" where
  "asciiToLowerCase s = map (\<lambda>c. if 0x41 \<le> c \<and> c \<le> 0x5A then c + 0x20 else c) s"

text \<open>\<^verbatim>\<open>xs.join(sep)\<close> on an array of strings.\<close>

fun join :: "jsstring \<Rightarrow> jsstring list \<Rightarrow> jsstring" where
  "join sep [] = []"
| "join sep [x] = x"
| "join sep (x # y # ys) = x @ sep @ join sep (y # ys)"

text \<open>
  \<^verbatim>\<open>s.split(/\s+/)\<close>: the separators are the maximal runs of whitespace. A string
  that starts or ends with whitespace yields an empty first or last piece, and the empty
  string yields one empty piece. \<open>cur\<close> is the piece being read.
\<close>

function splitFrom :: "jsstring \<Rightarrow> jsstring \<Rightarrow> jsstring list" where
  "splitFrom cur [] = [cur]"
| "splitFrom cur (c # cs) =
     (if regex_s c then cur # splitFrom [] (dropWhile regex_s cs)
      else splitFrom (cur @ [c]) cs)"
  by pat_completeness auto
termination
  by (relation "measure (\<lambda>(cur, s). length s)")
     (auto simp: length_dropWhile_le less_Suc_eq_le)

definition splitWhitespace :: "jsstring \<Rightarrow> jsstring list" where
  "splitWhitespace s = splitFrom [] s"

text \<open>
  The two taxonomies.
\<close>

definition shutterstockCategories :: "jsstring list" where
  "shutterstockCategories = map js
     [''Abstract'', ''Animals/Wildlife'', ''Arts'', ''Backgrounds/Textures'',
      ''Beauty/Fashion'', ''Buildings/Landmarks'', ''Business/Finance'',
      ''Celebrities'', ''Education'', ''Food and drink'', ''Healthcare/Medical'',
      ''Holidays'', ''Industrial'', ''Interiors'', ''Miscellaneous'', ''Nature'',
      ''Objects'', ''Parks/Outdoor'', ''People'', ''Religion'', ''Science'',
      ''Signs/Symbols'', ''Sports/Recreation'', ''Technology'', ''Transportation'',
      ''Vintage'']"

definition adobeStockCategories :: "jsstring list" where
  "adobeStockCategories = map js
     [''Animals'', ''Buildings and Architecture'', ''Business'', ''Drinks'',
      ''The Environment'', ''States of Mind'', ''Food'', ''Graphic Resources'',
      ''Hobbies and Leisure'', ''Industry'', ''Landscapes'', ''Lifestyle'', ''People'',
      ''Plants and Flowers'', ''Culture and Religion'', ''Science'', ''Social Issues'',
      ''Sports'', ''Technology'', ''Transport'', ''Travel'']"

text \<open>
  The word tables, \<^verbatim>\<open>categoryMatches\<close> of each function, in the order of the
  object literals.
\<close>

type_synonym category_table = "(jsstring \<times> jsstring list) list"

definition adobeStockMatchesLiteral :: "(string \<times> string list) list" where
  "adobeStockMatchesLiteral =
     [(''animal'', [''Animals'']), (''wildlife'', [''Animals'']), (''pet'', [''Animals'']),
      (''dog'', [''Animals'']), (''cat'', [''Animals'']), (''bird'', [''Animals'']),
      (''fish'', [''Animals'']), (''horse'', [''Animals'']), (''mammal'', [''Animals'']),
      (''reptile'', [''Animals'']), (''building'', [''Buildings and Architecture'']),
      (''architecture'', [''Buildings and Architecture'']),
      (''house'', [''Buildings and Architecture'']),
      (''skyscraper'', [''Buildings and Architecture'']),
      (''tower'', [''Buildings and Architecture'']),
      (''monument'', [''Buildings and Architecture'']),
      (''bridge'', [''Buildings and Architecture'']),
      (''construction'', [''Buildings and Architecture'']),
      (''apartment'', [''Buildings and Architecture'']), (''business'', [''Business'']),
      (''office'', [''Business'']), (''meeting'', [''Business'']),
      (''professional'', [''Business'']), (''corporate'', [''Business'']),
      (''finance'', [''Business'']), (''economy'', [''Business'']),
      (''management'', [''Business'']), (''entrepreneur'', [''Business'']),
      (''startup'', [''Business'']), (''drink'', [''Drinks'']), (''beverage'', [''Drinks'']),
      (''coffee'', [''Drinks'']), (''tea'', [''Drinks'']), (''wine'', [''Drinks'']),
      (''beer'', [''Drinks'']), (''cocktail'', [''Drinks'']), (''juice'', [''Drinks'']),
      (''alcohol'', [''Drinks'']), (''water'', [''Drinks'']),
      (''environment'', [''The Environment'']), (''nature'', [''The Environment'']),
      (''ecology'', [''The Environment'']), (''ecosystem'', [''The Environment'']),
      (''sustainable'', [''The Environment'']), (''green'', [''The Environment'']),
      (''climate'', [''The Environment'']), (''pollution'', [''The Environment'']),
      (''conservation'', [''The Environment'']), (''renewable'', [''The Environment'']),
      (''emotion'', [''States of Mind'']), (''feeling'', [''States of Mind'']),
      (''happiness'', [''States of Mind'']), (''sadness'', [''States of Mind'']),
      (''depression'', [''States of Mind'']), (''anxiety'', [''States of Mind'']),
      (''stress'', [''States of Mind'']), (''joy'', [''States of Mind'']),
      (''fear'', [''States of Mind'']), (''love'', [''States of Mind'']),
      (''food'', [''Food'']), (''meal'', [''Food'']), (''cuisine'', [''Food'']),
      (''restaurant'', [''Food'']), (''dinner'', [''Food'']), (''lunch'', [''Food'']),
      (''breakfast'', [''Food'']), (''cooking'', [''Food'']), (''fruit'', [''Food'']),
      (''vegetable'', [''Food'']), (''graphic'', [''Graphic Resources'']),
      (''design'', [''Graphic Resources'']), (''illustration'', [''Graphic Resources'']),
      (''vector'', [''Graphic Resources'']), (''font'', [''Graphic Resources'']),
      (''typography'', [''Graphic Resources'']), (''icon'', [''Graphic Resources'']),
      (''logo'', [''Graphic Resources'']), (''pattern'', [''Graphic Resources'']),
      (''template'', [''Graphic Resources'']), (''hobby'', [''Hobbies and Leisure'']),
      (''leisure'', [''Hobbies and Leisure'']), (''recreation'', [''Hobbies and Leisure'']),
      (''game'', [''Hobbies and Leisure'']), (''craft'', [''Hobbies and Leisure'']),
      (''diy'', [''Hobbies and Leisure'']), (''gardening'', [''Hobbies and Leisure'']),
      (''reading'', [''Hobbies and Leisure'']), (''music'', [''Hobbies and Leisure'']),
      (''entertainment'', [''Hobbies and Leisure'']), (''industry'', [''Industry'']),
      (''factory'', [''Industry'']), (''manufacturing'', [''Industry'']),
      (''production'', [''Industry'']), (''warehouse'', [''Industry'']),
      (''machinery'', [''Industry'']), (''industrial'', [''Industry'']),
      (''engineering'', [''Industry'']), (''mining'', [''Industry'']),
      (''automation'', [''Industry'']), (''landscape'', [''Landscapes'']),
      (''mountain'', [''Landscapes'']), (''valley'', [''Landscapes'']),
      (''hill'', [''Landscapes'']), (''desert'', [''Landscapes'']),
      (''forest'', [''Landscapes'']), (''beach'', [''Landscapes'']),
      (''ocean'', [''Landscapes'']), (''sea'', [''Landscapes'']),
      (''river'', [''Landscapes'']), (''lifestyle'', [''Lifestyle'']),
      (''fashion'', [''Lifestyle'']), (''beauty'', [''Lifestyle'']),
      (''trend'', [''Lifestyle'']), (''style'', [''Lifestyle'']),
      (''luxury'', [''Lifestyle'']), (''wellness'', [''Lifestyle'']),
      (''health'', [''Lifestyle'']), (''exercise'', [''Lifestyle'']),
      (''home'', [''Lifestyle'']), (''people'', [''People'']), (''person'', [''People'']),
      (''man'', [''People'']), (''woman'', [''People'']), (''child'', [''People'']),
      (''family'', [''People'']), (''portrait'', [''People'']), (''crowd'', [''People'']),
      (''human'', [''People'']), (''adult'', [''People'']),
      (''plant'', [''Plants and Flowers'']), (''flower'', [''Plants and Flowers'']),
      (''tree'', [''Plants and Flowers'']), (''garden'', [''Plants and Flowers'']),
      (''botanical'', [''Plants and Flowers'']), (''floral'', [''Plants and Flowers'']),
      (''herb'', [''Plants and Flowers'']), (''leaf'', [''Plants and Flowers'']),
      (''bush'', [''Plants and Flowers'']), (''grass'', [''Plants and Flowers'']),
      (''culture'', [''Culture and Religion'']), (''religion'', [''Culture and Religion'']),
      (''faith'', [''Culture and Religion'']), (''tradition'', [''Culture and Religion'']),
      (''heritage'', [''Culture and Religion'']), (''ritual'', [''Culture and Religion'']),
      (''ceremony'', [''Culture and Religion'']), (''worship'', [''Culture and Religion'']),
      (''festival'', [''Culture and Religion'']),
      (''celebration'', [''Culture and Religion'']), (''science'', [''Science'']),
      (''research'', [''Science'']), (''laboratory'', [''Science'']),
      (''experiment'', [''Science'']), (''chemistry'', [''Science'']),
      (''physics'', [''Science'']), (''biology'', [''Science'']),
      (''medicine'', [''Science'']), (''innovation'', [''Science'']),
      (''social'', [''Social Issues'']), (''issue'', [''Social Issues'']),
      (''poverty'', [''Social Issues'']), (''inequality'', [''Social Issues'']),
      (''discrimination'', [''Social Issues'']), (''protest'', [''Social Issues'']),
      (''activism'', [''Social Issues'']), (''community'', [''Social Issues'']),
      (''diversity'', [''Social Issues'']), (''inclusion'', [''Social Issues'']),
      (''sport'', [''Sports'']), (''athlete'', [''Sports'']), (''competition'', [''Sports'']),
      (''football'', [''Sports'']), (''soccer'', [''Sports'']), (''basketball'', [''Sports'']),
      (''tennis'', [''Sports'']), (''swimming'', [''Sports'']), (''running'', [''Sports'']),
      (''fitness'', [''Sports'']), (''technology'', [''Technology'']),
      (''digital'', [''Technology'']), (''computer'', [''Technology'']),
      (''electronic'', [''Technology'']), (''device'', [''Technology'']),
      (''software'', [''Technology'']), (''hardware'', [''Technology'']),
      (''internet'', [''Technology'']), (''mobile'', [''Technology'']),
      (''tech'', [''Technology'']), (''transport'', [''Transport'']),
      (''vehicle'', [''Transport'']), (''car'', [''Transport'']), (''bus'', [''Transport'']),
      (''train'', [''Transport'']), (''aircraft'', [''Transport'']),
      (''airplane'', [''Transport'']), (''ship'', [''Transport'']),
      (''bicycle'', [''Transport'']), (''motorcycle'', [''Transport'']),
      (''travel'', [''Travel'']), (''tourism'', [''Travel'']), (''vacation'', [''Travel'']),
      (''holiday'', [''Travel'']), (''adventure'', [''Travel'']),
      (''exploration'', [''Travel'']), (''destination'', [''Travel'']),
      (''tourist'', [''Travel'']), (''journey'', [''Travel'']), (''trip'', [''Travel''])]"

definition shutterstockMatchesLiteral :: "(string \<times> string list) list" where
  "shutterstockMatchesLiteral =
     [(''abstract'', [''Abstract'']), (''geometric'', [''Abstract'']),
      (''pattern'', [''Abstract'', ''Backgrounds/Textures'']),
      (''animal'', [''Animals/Wildlife'']), (''wildlife'', [''Animals/Wildlife'']),
      (''pet'', [''Animals/Wildlife'']), (''dog'', [''Animals/Wildlife'']),
      (''cat'', [''Animals/Wildlife'']), (''bird'', [''Animals/Wildlife'']),
      (''fish'', [''Animals/Wildlife'']), (''art'', [''Arts'']), (''painting'', [''Arts'']),
      (''sculpture'', [''Arts'']), (''drawing'', [''Arts'']), (''creative'', [''Arts'']),
      (''background'', [''Backgrounds/Textures'']), (''texture'', [''Backgrounds/Textures'']),
      (''wallpaper'', [''Backgrounds/Textures'']), (''beauty'', [''Beauty/Fashion'']),
      (''fashion'', [''Beauty/Fashion'']), (''makeup'', [''Beauty/Fashion'']),
      (''model'', [''Beauty/Fashion'', ''People'']), (''style'', [''Beauty/Fashion'']),
      (''clothing'', [''Beauty/Fashion'']), (''building'', [''Buildings/Landmarks'']),
      (''architecture'', [''Buildings/Landmarks'']), (''landmark'', [''Buildings/Landmarks'']),
      (''monument'', [''Buildings/Landmarks'']), (''skyscraper'', [''Buildings/Landmarks'']),
      (''house'', [''Buildings/Landmarks'']), (''business'', [''Business/Finance'']),
      (''finance'', [''Business/Finance'']), (''office'', [''Business/Finance'']),
      (''meeting'', [''Business/Finance'']), (''corporate'', [''Business/Finance'']),
      (''professional'', [''Business/Finance'']), (''celebrity'', [''Celebrities'']),
      (''famous'', [''Celebrities'']), (''star'', [''Celebrities'']),
      (''education'', [''Education'']), (''school'', [''Education'']),
      (''learning'', [''Education'']), (''student'', [''Education'']),
      (''book'', [''Education'']), (''classroom'', [''Education'']),
      (''food'', [''Food and drink'']), (''drink'', [''Food and drink'']),
      (''meal'', [''Food and drink'']), (''restaurant'', [''Food and drink'']),
      (''cooking'', [''Food and drink'']), (''kitchen'', [''Food and drink'']),
      (''health'', [''Healthcare/Medical'']), (''medical'', [''Healthcare/Medical'']),
      (''doctor'', [''Healthcare/Medical'']), (''hospital'', [''Healthcare/Medical'']),
      (''nurse'', [''Healthcare/Medical'']), (''medicine'', [''Healthcare/Medical'']),
      (''holiday'', [''Holidays'']), (''christmas'', [''Holidays'']),
      (''halloween'', [''Holidays'']), (''easter'', [''Holidays'']),
      (''celebration'', [''Holidays'']), (''festival'', [''Holidays'']),
      (''industrial'', [''Industrial'']), (''factory'', [''Industrial'']),
      (''manufacturing'', [''Industrial'']), (''machinery'', [''Industrial'']),
      (''construction'', [''Industrial'']), (''interior'', [''Interiors'']),
      (''room'', [''Interiors'']), (''furniture'', [''Interiors'']),
      (''home'', [''Interiors'']), (''decoration'', [''Interiors'']),
      (''indoor'', [''Interiors'']), (''misc'', [''Miscellaneous'']),
      (''various'', [''Miscellaneous'']), (''assorted'', [''Miscellaneous'']),
      (''nature'', [''Nature'']), (''landscape'', [''Nature'', ''Parks/Outdoor'']),
      (''mountain'', [''Nature'', ''Parks/Outdoor'']), (''forest'', [''Nature'']),
      (''plant'', [''Nature'']), (''flower'', [''Nature'']), (''tree'', [''Nature'']),
      (''river'', [''Nature'']), (''lake'', [''Nature'']), (''ocean'', [''Nature'']),
      (''sea'', [''Nature'']), (''object'', [''Objects'']), (''item'', [''Objects'']),
      (''tool'', [''Objects'']), (''product'', [''Objects'']), (''park'', [''Parks/Outdoor'']),
      (''outdoor'', [''Parks/Outdoor'']), (''garden'', [''Parks/Outdoor'']),
      (''yard'', [''Parks/Outdoor'']), (''camping'', [''Parks/Outdoor'']),
      (''people'', [''People'']), (''person'', [''People'']), (''man'', [''People'']),
      (''woman'', [''People'']), (''child'', [''People'']), (''family'', [''People'']),
      (''group'', [''People'']), (''religion'', [''Religion'']), (''church'', [''Religion'']),
      (''temple'', [''Religion'']), (''mosque'', [''Religion'']), (''prayer'', [''Religion'']),
      (''spiritual'', [''Religion'']), (''science'', [''Science'']),
      (''research'', [''Science'']), (''lab'', [''Science'']), (''chemistry'', [''Science'']),
      (''biology'', [''Science'']), (''physics'', [''Science'']),
      (''sign'', [''Signs/Symbols'']), (''symbol'', [''Signs/Symbols'']),
      (''icon'', [''Signs/Symbols'']), (''logo'', [''Signs/Symbols'']),
      (''sport'', [''Sports/Recreation'']), (''game'', [''Sports/Recreation'']),
      (''play'', [''Sports/Recreation'']), (''athlete'', [''Sports/Recreation'']),
      (''fitness'', [''Sports/Recreation'']), (''exercise'', [''Sports/Recreation'']),
      (''recreation'', [''Sports/Recreation'']), (''technology'', [''Technology'']),
      (''computer'', [''Technology'']), (''digital'', [''Technology'']),
      (''electronic'', [''Technology'']), (''device'', [''Technology'']),
      (''smartphone'', [''Technology'']), (''internet'', [''Technology'']),
      (''transportation'', [''Transportation'']), (''vehicle'', [''Transportation'']),
      (''car'', [''Transportation'']), (''bus'', [''Transportation'']),
      (''train'', [''Transportation'']), (''plane'', [''Transportation'']),
      (''airplane'', [''Transportation'']), (''ship'', [''Transportation'']),
      (''boat'', [''Transportation'']), (''vintage'', [''Vintage'']),
      (''retro'', [''Vintage'']), (''antique'', [''Vintage'']), (''old'', [''Vintage'']),
      (''classic'', [''Vintage''])]"

definition objectLiteral :: "(string \<times> string list) list \<Rightarrow> category_table" where
  "objectLiteral rows = map (\<lambda>(w, cs). (js w, map js cs)) rows"

definition adobeStockMatches :: category_table where
  "adobeStockMatches = objectLiteral adobeStockMatchesLiteral"

definition shutterstockMatches :: category_table where
  "shutterstockMatches = objectLiteral shutterstockMatchesLiteral"

text \<open>
  \<^verbatim>\<open>categoryMatches[word]\<close>. \<open>ownProperty\<close> reads a key of the literal itself
  (were a key written twice, the later row would stand). The tables are plain object
  literals, so a word that is not a key of the literal is still looked up on
  \<^verbatim>\<open>Object.prototype\<close>: for its property names the read yields a function (or the
  prototype itself, for \<^verbatim>\<open>__proto__\<close>), which is truthy and not iterable. Every
  other word yields \<^verbatim>\<open>undefined\<close>.
\<close>

datatype property = Own "jsstring list" | Inherited | Undefined

fun ownProperty :: "('k \<times> 'v) list \<Rightarrow> 'k \<Rightarrow> 'v option" where
  "ownProperty [] key = None"
| "ownProperty ((k, v) # rows) key =
     (case ownProperty rows key of
        Some later \<Rightarrow> Some later
      | None \<Rightarrow> if k = key then Some v else None)"

definition objectPrototypeKeys :: "jsstring list" where
  "objectPrototypeKeys = map js
     [''constructor'', ''__proto__'', ''hasOwnProperty'', ''isPrototypeOf'',
      ''propertyIsEnumerable'', ''toLocaleString'', ''toString'', ''valueOf'',
      ''__defineGetter__'', ''__defineSetter__'', ''__lookupGetter__'',
      ''__lookupSetter__'']"

definition getProperty :: "category_table \<Rightarrow> jsstring \<Rightarrow> property" where
  "getProperty tbl word =
     (case ownProperty tbl word of
        Some cats \<Rightarrow> Own cats
      | None \<Rightarrow> if word \<in> set objectPrototypeKeys then Inherited else Undefined)"

text \<open>
  \<^verbatim>\<open>categoryCount\<close> is an object used as a dictionary; \<^verbatim>\<open>Object.entries\<close> lists
  its keys in the order of their first insertion, so it is an association list here.
  \<^verbatim>\<open>categoryCount[category] = (categoryCount[category] || 0) + 1\<close> adds a new key
  with count 1 at the end, or adds 1 to the count of a key in its place. The categories
  written are those of the tables; none of them names a property of
  \<^verbatim>\<open>Object.prototype\<close>, so the read finds a count or nothing.
\<close>

type_synonym category_count = "(jsstring \<times> nat) list"

fun increment :: "category_count \<Rightarrow> jsstring \<Rightarrow> category_count" where
  "increment [] category = [(category, 1)]"
| "increment ((k, n) # cc) category =
     (if k = category then (k, n + 1) # cc else (k, n) # increment cc category)"

text \<open>
  \<^verbatim>\<open>
  for (const word of words) {
    if (categoryMatches[word]) {
      for (const category of categoryMatches[word]) {
        categoryCount[category] = (categoryCount[category] || 0) + 1;
      }
    }
  }
  \<close>
  The \<^verbatim>\<open>for ... of\<close> over a value that is not iterable throws a TypeError, which
  leaves the function.
\<close>

datatype js_error = TypeError

definition countWord :: "category_table \<Rightarrow> category_count \<Rightarrow> jsstring \<Rightarrow> js_error + category_count" where
  "countWord tbl cc word =
     (case getProperty tbl word of
        Undefined \<Rightarrow> Inr cc
      | Inherited \<Rightarrow> Inl TypeError
      | Own cats \<Rightarrow> Inr (foldl increment cc cats))"

fun countWords :: "category_table \<Rightarrow> category_count \<Rightarrow> jsstring list \<Rightarrow> js_error + category_count" where
  "countWords tbl cc [] = Inr cc"
| "countWords tbl cc (word # ws) =
     (case countWord tbl cc word of
        Inl e \<Rightarrow> Inl e
      | Inr cc' \<Rightarrow> countWords tbl cc' ws)"

text \<open>
  \<^verbatim>\<open>Object.entries(categoryCount).sort((a, b) => b[1] - a[1]).map(entry => entry[0])\<close>:
  a stable sort, descending by count.
\<close>

definition sortedCategories :: "category_count \<Rightarrow> jsstring list" where
  "sortedCategories cc = map fst (sort_key (\<lambda>entry. - int (snd entry)) cc)"

text \<open>
  \<^verbatim>\<open>
  export function suggestCategoriesForAdobeStock(title: string, keywords: string[]): string[] {
    const combinedText = (title + " " + keywords.join(" ")).toLowerCase();
    ...
    const words = combinedText.split(/\s+/);
    ...
    return sortedCategories.length >= 1 ? sortedCategories.slice(0, 1) : ["Animals"];
  }
  \<close>
\<close>

definition adobeStockWords :: "(jsstring \<Rightarrow> jsstring) \<Rightarrow> jsstring \<Rightarrow> jsstring list \<Rightarrow> jsstring list" where
  "adobeStockWords toLowerCase title keywords =
     splitWhitespace (toLowerCase (title @ js '' '' @ join (js '' '') keywords))"

definition adobeStockCategoryCount ::
  "(jsstring \<Rightarrow> jsstring) \<Rightarrow> jsstring \<Rightarrow> jsstring list \<Rightarrow> js_error + category_count" where
  "adobeStockCategoryCount toLowerCase title keywords =
     countWords adobeStockMatches [] (adobeStockWords toLowerCase title keywords)"

definition suggestCategoriesForAdobeStock ::
  "(jsstring \<Rightarrow> jsstring) \<Rightarrow> jsstring \<Rightarrow> jsstring list \<Rightarrow> js_error + jsstring list" where
  "suggestCategoriesForAdobeStock toLowerCase title keywords =
     (case adobeStockCategoryCount toLowerCase title keywords of
        Inl e \<Rightarrow> Inl e
      | Inr categoryCount \<Rightarrow>
          (let sorted = sortedCategories categoryCount
           in Inr (if length sorted \<ge> 1 then take 1 sorted else [js ''Animals''])))"

text \<open>
  \<^verbatim>\<open>
  export function suggestCategoriesForShutterstock(title: string, description: string): string[] {
    const combinedText = (title + " " + description).toLowerCase();
    ...
    return sortedCategories.length >= 2
      ? sortedCategories.slice(0, 2)
      : sortedCategories.concat(["Miscellaneous", "Objects"]).slice(0, 2);
  }
  \<close>
\<close>

definition shutterstockWords :: "(jsstring \<Rightarrow> jsstring) \<Rightarrow> jsstring \<Rightarrow> jsstring \<Rightarrow> jsstring list" where
  "shutterstockWords toLowerCase title description =
     splitWhitespace (toLowerCase (title @ js '' '' @ description))"

definition shutterstockCategoryCount ::
  "(jsstring \<Rightarrow> jsstring) \<Rightarrow> jsstring \<Rightarrow> jsstring \<Rightarrow> js_error + category_count" where
  "shutterstockCategoryCount toLowerCase title description =
     countWords shutterstockMatches [] (shutterstockWords toLowerCase title description)"

definition suggestCategoriesForShutterstock ::
  "(jsstring \<Rightarrow> jsstring) \<Rightarrow> jsstring \<Rightarrow> jsstring \<Rightarrow> js_error + jsstring list" where
  "suggestCategoriesForShutterstock toLowerCase title description =
     (case shutterstockCategoryCount toLowerCase title description of
        Inl e \<Rightarrow> Inl e
      | Inr categoryCount \<Rightarrow>
          (let sorted = sortedCategories categoryCount
           in Inr (if length sorted \<ge> 2 then take 2 sorted
                   else take 2 (sorted @ [js ''Miscellaneous'', js ''Objects'']))))"

section \<open>Data model\<close>

text \<open>
  A browser \<^verbatim>\<open>File\<close>, as far as the code reads it: its name, its MIME type and its
  size in bytes.
\<close>

record js_file =
  file_name :: jsstring
  file_type :: jsstring
  file_size :: nat

text \<open>
  \<^verbatim>\<open>
  export interface ProcessedImage {
    id: string;
    file: File;
    previewUrl: string;
    status: 'pending' | 'processing' | 'complete' | 'error';
    result?: { title: string; description: string; keywords: string[];
               prompt?: string; baseModel?: string; categories?: string[]; };
    error?: string;
  }
  \<close>
  The fields \<^verbatim>\<open>id\<close>, \<^verbatim>\<open>file\<close> and \<^verbatim>\<open>keywords\<close> are \<open>image_id\<close>, \<open>image_file\<close> and
  \<open>keywordList\<close> here.
\<close>

datatype status = Pending | Processing | Complete | Error

record metadata =
  title :: jsstring
  description :: jsstring
  keywordList :: "jsstring list"
  prompt :: "jsstring option"
  baseModel :: "jsstring option"
  categories :: "jsstring list option"

record processed_image =
  image_id :: jsstring
  image_file :: js_file
  previewUrl :: jsstring
  status :: status
  result :: "metadata option"
  error :: "jsstring option"

section \<open>CSV formatter\<close>

text \<open>
  Helpers of the host language: \<^verbatim>\<open>s.startsWith(p)\<close>, \<^verbatim>\<open>xs.findIndex(p)\<close>
  (\<open>None\<close> for \<^verbatim>\<open>-1\<close>), \<^verbatim>\<open>n.toString()\<close> of a natural number, and the template
  \<^verbatim>\<open>`"${s}"`\<close> that wraps a string in double quotes.
\<close>

definition startsWith :: "jsstring \<Rightarrow> jsstring \<Rightarrow> bool" where
  "startsWith s p = (take (length p) s = p)"

fun findIndex :: "('a \<Rightarrow> bool) \<Rightarrow> 'a list \<Rightarrow> nat option" where
  "findIndex p [] = None"
| "findIndex p (x # xs) =
     (if p x then Some 0 else case findIndex p xs of None \<Rightarrow> None | Some i \<Rightarrow> Some (i + 1))"

function numberToString :: "nat \<Rightarrow> jsstring" where
  "numberToString n =
     (if n < 10 then [of_nat (48 + n)]
      else numberToString (n div 10) @ [of_nat (48 + n mod 10)])"
  by pat_completeness auto
termination
  by (relation "measure id") auto

definition quoted :: "jsstring \<Rightarrow> jsstring" where
  "quoted s = [0x22] @ s @ [0x22]"

text \<open>
  \<^verbatim>\<open>
  if (isFreepikOnly) {
    headers = ['"File name"', '"Title"', '"Keywords"', '"Prompt"', '"Base-Model"'];
  } else if (isShutterstock) {
    headers = ['"Filename"', '"Description"', '"Keywords"', '"Categories"'];
  } else if (isAdobeStock) {
    headers = ['"Filename"', '"Title"', '"Keywords"', '"Category"'];
  } else {
    headers = ['"Filename"', '"Title"', '"Description"', '"Keywords"'];
  }
  \<close>
\<close>

definition csvHeaders :: "bool \<Rightarrow> bool \<Rightarrow> bool \<Rightarrow> jsstring list" where
  "csvHeaders isFreepikOnly isShutterstock isAdobeStock =
     (if isFreepikOnly then
        map (\<lambda>h. quoted (js h)) [''File name'', ''Title'', ''Keywords'', ''Prompt'', ''Base-Model'']
      else if isShutterstock then
        map (\<lambda>h. quoted (js h)) [''Filename'', ''Description'', ''Keywords'', ''Categories'']
      else if isAdobeStock then
        map (\<lambda>h. quoted (js h)) [''Filename'', ''Title'', ''Keywords'', ''Category'']
      else
        map (\<lambda>h. quoted (js h)) [''Filename'', ''Title'', ''Description'', ''Keywords''])"

text \<open>
  The callback of \<^verbatim>\<open>.map\<close>: one row for an image that passed the filter, \<open>r\<close>
  being its \<^verbatim>\<open>result\<close>. A video file (MIME type starting with \<^verbatim>\<open>video/\<close>) gets
  the video row whatever the platform. A missing optional field and an empty string both
  print as the empty string (\<^verbatim>\<open>x || ''\<close>).
\<close>

definition csvRow :: "bool \<Rightarrow> bool \<Rightarrow> bool \<Rightarrow> processed_image \<Rightarrow> metadata \<Rightarrow> jsstring" where
  "csvRow isFreepikOnly isShutterstock isAdobeStock img r =
     (let isVideo = startsWith (file_type (image_file img)) (js ''video/'');
          cleanTitle = (if title r \<noteq> [] then removeSymbolsFromTitle (title r) else [])
      in if isVideo then
           (let categoryIndex =
                  (case categories r of
                     Some (cat # rest) \<Rightarrow>
                       (case findIndex (\<lambda>c. c = cat) adobeStockCategories of
                          Some idx \<Rightarrow> numberToString (idx + 1)
                        | None \<Rightarrow> [])
                   | _ \<Rightarrow> [])
            in join (js '','')
                 [quoted (file_name (image_file img)),
                  quoted cleanTitle,
                  quoted (join (js '','') (keywordList r)),
                  quoted categoryIndex])
         else if isFreepikOnly then
           join (js '';'')
             [quoted (file_name (image_file img)),
              quoted cleanTitle,
              quoted (join (js '', '') (keywordList r)),
              quoted (case prompt r of Some p \<Rightarrow> p | None \<Rightarrow> []),
              quoted (js ''leonardo'')]
         else if isShutterstock then
           join (js '','')
             [quoted (file_name (image_file img)),
              quoted (description r),
              quoted (join (js '','') (keywordList r)),
              quoted (case categories r of Some cs \<Rightarrow> join (js '','') cs | None \<Rightarrow> [])]
         else if isAdobeStock then
           join (js '','')
             [quoted (file_name (image_file img)),
              quoted cleanTitle,
              quoted (join (js '', '') (keywordList r)),
              quoted (case categories r of Some cs \<Rightarrow> join (js '','') cs | None \<Rightarrow> [])]
         else
           join (js '','')
             [quoted (file_name (image_file img)),
              quoted cleanTitle,
              quoted (description r),
              quoted (join (js '', '') (keywordList r))])"

text \<open>
  \<^verbatim>\<open>images.filter(img => img.status === 'complete' && img.result).map(...)\<close>
\<close>

fun csvRows :: "bool \<Rightarrow> bool \<Rightarrow> bool \<Rightarrow> processed_image list \<Rightarrow> jsstring list" where
  "csvRows isFreepikOnly isShutterstock isAdobeStock [] = []"
| "csvRows isFreepikOnly isShutterstock isAdobeStock (img # imgs) =
     (case result img of
        Some r \<Rightarrow>
          (if status img = Complete
           then csvRow isFreepikOnly isShutterstock isAdobeStock img r #
                csvRows isFreepikOnly isShutterstock isAdobeStock imgs
           else csvRows isFreepikOnly isShutterstock isAdobeStock imgs)
      | None \<Rightarrow> csvRows isFreepikOnly isShutterstock isAdobeStock imgs)"

text \<open>
  \<^verbatim>\<open>
  const csvContent = [
    headers.join(isFreepikOnly ? ';' : ','),
    ...images.filter(...).map(...)
  ].join('\n');
  \<close>
\<close>

definition formatImagesAsCSV :: "processed_image list \<Rightarrow> bool \<Rightarrow> bool \<Rightarrow> bool \<Rightarrow> jsstring" where
  "formatImagesAsCSV images isFreepikOnly isShutterstock isAdobeStock =
     join [0x0A]
       (join (if isFreepikOnly then js '';'' else js '','')
          (csvHeaders isFreepikOnly isShutterstock isAdobeStock) #
        csvRows isFreepikOnly isShutterstock isAdobeStock images)"

section \<open>Upload validation\<close>

text \<open>
  \<^verbatim>\<open>
  export function isValidMediaType(file: File): boolean {
    const acceptedTypes = [ 'image/jpeg', ... ];
    return acceptedTypes.includes(file.type);
  }
  export function isValidFileSize(file: File, maxSizeGB = 10): boolean {
    const maxSizeBytes = maxSizeGB * 1024 * 1024 * 1024;
    return file.size <= maxSizeBytes;
  }
  \<close>
\<close>

definition acceptedTypes :: "jsstring list" where
  "acceptedTypes = map js
     [''image/jpeg'', ''image/png'', ''image/jpg'', ''image/webp'', ''image/svg+xml'',
      ''application/postscript'', ''application/eps'', ''application/x-eps'', ''image/eps'',
      ''application/illustrator'', ''video/mp4'', ''video/quicktime'', ''video/x-msvideo'',
      ''video/mpeg'', ''video/webm'', ''video/x-matroska'']"

definition isValidMediaType :: "js_file \<Rightarrow> bool" where
  "isValidMediaType f = (file_type f \<in> set acceptedTypes)"

definition isValidFileSize :: "js_file \<Rightarrow> bool" where
  "isValidFileSize f = (file_size f \<le> 10 * 1024 * 1024 * 1024)"

text \<open>
  \<^verbatim>\<open>processFiles\<close> of the uploader. What the page shows is a list of notices
  (\<^verbatim>\<open>toast\<close> calls). The outcome of \<^verbatim>\<open>createImagePreview\<close> (a
  \<^verbatim>\<open>FileReader\<close>, \<open>None\<close> when it fails) and the random identifier that
  \<^verbatim>\<open>generateId\<close> gives the image made from the \<open>i\<close>-th file are parameters.
\<close>

datatype notice =
    NotValidMedia jsstring
  | ExceedsSizeLimit jsstring
  | FailedToProcess jsstring
  | ImagesAdded nat
  | NoValidImages
  | EnterApiKeyFirst
  | NoImagesToProcess
  | FreeLimitReached
  | AllImagesProcessed

record upload_env =
  createImagePreview :: "js_file \<Rightarrow> jsstring option"
  generateId :: "nat \<Rightarrow> jsstring"

definition processFile :: "upload_env \<Rightarrow> nat \<Rightarrow> js_file \<Rightarrow> notice list \<times> processed_image option" where
  "processFile env i f =
     (if \<not> isValidMediaType f then ([NotValidMedia (file_name f)], None)
      else if \<not> isValidFileSize f then ([ExceedsSizeLimit (file_name f)], None)
      else case createImagePreview env f of
             None \<Rightarrow> ([FailedToProcess (file_name f)], None)
           | Some url \<Rightarrow>
               ([], Some \<lparr>image_id = generateId env i, image_file = f, previewUrl = url,
                         status = Pending, result = None, error = None\<rparr>))"

text \<open>
  The value returned is the argument of the \<^verbatim>\<open>onImagesSelected\<close> callback (\<open>None\<close>
  when it is not called) and the notices in the order they are raised. The loop over the
  files runs each file's checks of type and size at once, so their notices come first,
  in the order of the files; a failed preview is reported after the \<^verbatim>\<open>await\<close>, when
  the loop is over (the previews are taken to finish in the order of the files); the last
  notice follows \<^verbatim>\<open>Promise.all\<close>.
\<close>

definition raisedAfterAwait :: "notice \<Rightarrow> bool" where
  "raisedAfterAwait n = (case n of FailedToProcess name \<Rightarrow> True | _ \<Rightarrow> False)"

definition processFiles :: "upload_env \<Rightarrow> js_file list \<Rightarrow> processed_image list option \<times> notice list" where
  "processFiles env files =
     (let results = map (\<lambda>(i, f). processFile env i f) (enumerate 0 files);
          validResults = concat (map (\<lambda>(ns, r). case r of None \<Rightarrow> [] | Some img \<Rightarrow> [img]) results);
          raised = concat (map fst results);
          notices = filter (\<lambda>n. \<not> raisedAfterAwait n) raised @ filter raisedAfterAwait raised
      in if length validResults > 0 then (Some validResults, notices @ [ImagesAdded (length validResults)])
         else if length files > 0 then (None, notices @ [NoValidImages])
         else (None, notices))"

section \<open>AI client\<close>

text \<open>
  \<^verbatim>\<open>
  export type Platform = 'Freepik' | 'AdobeStock' | 'Shutterstock' | 'Vecteezy' | 'Canva'
                       | '123RF' | 'Dreamstime';
  export type GenerationMode = 'metadata' | 'imageToPrompt';
  \<close>
  The options of \<open>analyzeImageWithGemini\<close> that it reads. The page passes every one of
  them on each call, so the defaults of the destructuring never apply.
\<close>

datatype platform = Freepik | AdobeStock | Shutterstock | Vecteezy | Canva | Platform123RF | Dreamstime

datatype generation_mode = Metadata | ImageToPrompt

record analysis_options =
  platforms :: "platform list"
  generationMode :: generation_mode
  minTitleWords :: nat
  maxTitleWords :: nat
  minKeywords :: nat
  maxKeywords :: nat
  minDescriptionWords :: nat
  maxDescriptionWords :: nat

text \<open>
  \<^verbatim>\<open>AnalysisResult\<close>: the fields of \<open>metadata\<close> and the optional
  \<^verbatim>\<open>error\<close>, here \<open>analysis_error\<close>.
\<close>

record analysis_result = metadata +
  analysis_error :: "jsstring option"

text \<open>
  A value that \<^verbatim>\<open>response.json()\<close> can return: \<^verbatim>\<open>null\<close>, a boolean, a
  number, a string, an array or an object (its properties in the order of the text; of two
  properties of one name the later one counts). A number is given by the text that
  \<^verbatim>\<open>String\<close> renders it to, which is \<^verbatim>\<open>0\<close> for both zeros.
\<close>

datatype json_value =
    JNull
  | JBool bool
  | JNumber jsstring
  | JString jsstring
  | JArray "json_value list"
  | JObject "(jsstring \<times> json_value) list"

text \<open>
  \<open>truthy v\<close> is what \<^verbatim>\<open>v || ...\<close> tests. \<open>optionalMember v key\<close> is
  \<^verbatim>\<open>v?.key\<close> for the names \<^verbatim>\<open>error\<close> and \<^verbatim>\<open>message\<close>, which no
  prototype object defines: the own property of an object, and \<^verbatim>\<open>undefined\<close>
  (\<open>None\<close>) for everything else.
\<close>

fun truthy :: "json_value \<Rightarrow> bool" where
  "truthy JNull = False"
| "truthy (JBool b) = b"
| "truthy (JNumber rendering) = (rendering \<noteq> js ''0'')"
| "truthy (JString s) = (s \<noteq> [])"
| "truthy (JArray xs) = True"
| "truthy (JObject rows) = True"

fun optionalMember :: "json_value option \<Rightarrow> jsstring \<Rightarrow> json_value option" where
  "optionalMember (Some (JObject rows)) key = ownProperty rows key"
| "optionalMember v key = None"

text \<open>
  \<open>toString v\<close> is the conversion that \<^verbatim>\<open>new Error(v)\<close> applies to its argument.
  An array is joined with commas, \<^verbatim>\<open>null\<close> elements giving the empty string, so
  that \<^verbatim>\<open>[]\<close> gives the empty string. An object gives
  \<^verbatim>\<open>[object Object]\<close>; when it has a property \<^verbatim>\<open>toString\<close> of its own, which
  is no function, the conversion throws a TypeError.
\<close>

fun joinConverted :: "(js_error + jsstring) list \<Rightarrow> js_error + jsstring" where
  "joinConverted [] = Inr []"
| "joinConverted (Inl e # rest) = Inl e"
| "joinConverted (Inr s # rest) =
     (case joinConverted rest of
        Inl e \<Rightarrow> Inl e
      | Inr t \<Rightarrow> Inr (if rest = [] then s else s @ js '','' @ t))"

fun toString :: "json_value \<Rightarrow> js_error + jsstring" where
  "toString JNull = Inr (js ''null'')"
| "toString (JBool b) = Inr (if b then js ''true'' else js ''false'')"
| "toString (JNumber rendering) = Inr rendering"
| "toString (JString s) = Inr s"
| "toString (JArray xs) =
     joinConverted (map (\<lambda>x. if x = JNull then Inr [] else toString x) xs)"
| "toString (JObject rows) =
     (if ownProperty rows (js ''toString'') \<noteq> None then Inl TypeError
      else Inr (js ''[object Object]''))"

text \<open>
  What the client sends and what comes back. The request carries the key, the MIME type
  and the base64 data of the file, and a prompt that is a text built from the options
  alone (platform, mode and word-count targets); the prompt is not spelled out, the
  options stand for it. A reply is what the code reads of the response:
  \<^item> \<open>FetchRejected m\<close>: \<^verbatim>\<open>fetch\<close> throws an Error with message \<open>m\<close>;
  \<^item> \<open>ErrorStatusUnreadable m\<close>: \<^verbatim>\<open>response.ok\<close> is false and
    \<^verbatim>\<open>response.json()\<close> throws an Error with message \<open>m\<close> (the body is not JSON);
  \<^item> \<open>ErrorStatus errorData\<close>: \<^verbatim>\<open>response.ok\<close> is false and \<open>errorData\<close> is
    the value that \<^verbatim>\<open>response.json()\<close> returns;
  \<^item> \<open>OkUnreadable m\<close>: \<^verbatim>\<open>response.ok\<close> is true and the code throws an Error
    with message \<open>m\<close> before it holds the text of the reply as a string:
    \<^verbatim>\<open>response.json()\<close> throws (the body is not JSON), reading
    \<^verbatim>\<open>data.candidates[0]?.content?.parts[0]?.text\<close> throws (\<^verbatim>\<open>candidates\<close> or
    \<^verbatim>\<open>parts\<close> is missing), or what is read is no string, so that it has no
    \<^verbatim>\<open>trim\<close> or \<^verbatim>\<open>match\<close>;
  \<^item> \<open>OkText text\<close>: \<^verbatim>\<open>response.ok\<close> is true and \<open>text\<close> is that text
    (\<^verbatim>\<open>''\<close> when a link of the optional chain is missing).
\<close>

record request =
  req_apiKey :: jsstring
  req_options :: analysis_options
  req_mime_type :: jsstring
  req_data :: "jsstring option"

datatype reply =
    FetchRejected jsstring
  | ErrorStatusUnreadable jsstring
  | ErrorStatus json_value
  | OkUnreadable jsstring
  | OkText jsstring

text \<open>
  The object that \<^verbatim>\<open>JSON.parse\<close> returns, as far as the code reads it. The
  fields have the types the prompt asks for when they are there.
\<close>

record parsed_json =
  json_title :: "jsstring option"
  json_description :: "jsstring option"
  json_keywords :: "jsstring list option"
  json_prompt :: "jsstring option"
  json_baseModel :: "jsstring option"
  json_categories :: "jsstring list option"

text \<open>
  The browser and the network, for one call: the two \<^verbatim>\<open>FileReader\<close> helpers
  (\<open>None\<close> when the reader fails, which rejects with an event that is not an Error),
  the canvas conversion \<^verbatim>\<open>convertSvgToPng\<close> (\<open>None\<close> when it rejects), the reply of
  the model endpoint, \<^verbatim>\<open>JSON.parse\<close> (\<open>None\<close> when it throws),
  \<^verbatim>\<open>toLowerCase\<close>, and the messages the engine gives the TypeError of a
  \<^verbatim>\<open>for ... of\<close> over a value that is not iterable and the TypeError of a
  conversion of an object that has no primitive value.
\<close>

record ai_world =
  readFileAsText :: "js_file \<Rightarrow> jsstring option"
  convertSvgToPng :: "jsstring \<Rightarrow> js_file option"
  fileToBase64 :: "js_file \<Rightarrow> jsstring option"
  fetch :: "request \<Rightarrow> reply"
  jsonParse :: "jsstring \<Rightarrow> parsed_json option"
  lowerCase :: "jsstring \<Rightarrow> jsstring"
  notIterableMessage :: jsstring
  notPrimitiveMessage :: jsstring

text \<open>String helpers: \<^verbatim>\<open>endsWith\<close>, \<^verbatim>\<open>indexOf\<close>, \<^verbatim>\<open>trim\<close>,
  \<^verbatim>\<open>split(',')\<close>.\<close>

definition endsWith :: "jsstring \<Rightarrow> jsstring \<Rightarrow> bool" where
  "endsWith s p = (length p \<le> length s \<and> drop (length s - length p) s = p)"

fun indexOf :: "jsstring \<Rightarrow> jsstring \<Rightarrow> nat option" where
  "indexOf [] p = (if p = [] then Some 0 else None)"
| "indexOf (c # cs) p =
     (if startsWith (c # cs) p then Some 0
      else case indexOf cs p of None \<Rightarrow> None | Some i \<Rightarrow> Some (i + 1))"

definition includesString :: "jsstring \<Rightarrow> jsstring \<Rightarrow> bool" where
  "includesString s p = (indexOf s p \<noteq> None)"

definition trim :: "jsstring \<Rightarrow> jsstring" where
  "trim s = rev (dropWhile regex_s (rev (dropWhile regex_s s)))"

fun splitComma :: "jsstring \<Rightarrow> jsstring \<Rightarrow> jsstring list" where
  "splitComma cur [] = [cur]"
| "splitComma cur (c # cs) =
     (if c = 0x2C then cur # splitComma [] cs else splitComma (cur @ [c]) cs)"

text \<open>
  \<^verbatim>\<open>
  const jsonMatch = text.match(/```json\n([\s\S]*?)\n```/) ||
                    text.match(/```\n([\s\S]*?)\n```/) ||
                    text.match(/\{[\s\S]*\}/);
  let jsonStr = jsonMatch ? jsonMatch[1] || jsonMatch[0] : text;
  jsonStr = jsonStr.replace(/^[^{]*/, '').replace(/[^}]*$/, '');
  \<close>
  A fenced match starts at the first opening fence and ends at the first closing fence
  after it; \<open>fenced\<close> returns the group and the whole match. The third expression
  matches from the first opening brace to the last closing brace after it.
\<close>

definition fenced :: "jsstring \<Rightarrow> jsstring \<Rightarrow> (jsstring \<times> jsstring) option" where
  "fenced opener text =
     (case indexOf text opener of
        None \<Rightarrow> None
      | Some i \<Rightarrow>
          (let rest = drop (i + length opener) text
           in case indexOf rest (js ''\<newline>```'') of
                None \<Rightarrow> None
              | Some j \<Rightarrow> Some (take j rest, opener @ take j rest @ js ''\<newline>```'')))"

definition braced :: "jsstring \<Rightarrow> jsstring option" where
  "braced text =
     (let fromBrace = dropWhile (\<lambda>c. c \<noteq> 0x7B) text;
          toBrace = rev (dropWhile (\<lambda>c. c \<noteq> 0x7D) (rev fromBrace))
      in if length toBrace \<ge> 2 then Some toBrace else None)"

definition extractJson :: "jsstring \<Rightarrow> jsstring" where
  "extractJson text =
     (let jsonStr =
            (case fenced (js ''```json\<newline>'') text of
               Some (captured, whole) \<Rightarrow> if captured \<noteq> [] then captured else whole
             | None \<Rightarrow>
                 (case fenced (js ''```\<newline>'') text of
                    Some (captured, whole) \<Rightarrow> if captured \<noteq> [] then captured else whole
                  | None \<Rightarrow> (case braced text of Some whole \<Rightarrow> whole | None \<Rightarrow> text)));
          cleaned = dropWhile (\<lambda>c. c \<noteq> 0x7B) jsonStr
      in rev (dropWhile (\<lambda>c. c \<noteq> 0x7D) (rev cleaned)))"

text \<open>
  \<^verbatim>\<open>getRelevantFreepikKeywords\<close>, the fallback of the Freepik branch.
  \<open>uniqueValues\<close> is \<^verbatim>\<open>Array.from(new Set(xs))\<close>: the first occurrence of each
  value, in order. \<open>pushRelated\<close> is the loop
  \<^verbatim>\<open>words.forEach(word => { if (description.includes(word) && !keywords.includes(word))
  keywords.push(word); })\<close>.
\<close>

fun uniqueFrom :: "'a list \<Rightarrow> 'a list \<Rightarrow> 'a list" where
  "uniqueFrom seen [] = []"
| "uniqueFrom seen (x # xs) =
     (if x \<in> set seen then uniqueFrom seen xs else x # uniqueFrom (x # seen) xs)"

definition uniqueValues :: "'a list \<Rightarrow> 'a list" where
  "uniqueValues xs = uniqueFrom [] xs"

definition pushRelated :: "jsstring \<Rightarrow> jsstring list \<Rightarrow> jsstring list \<Rightarrow> jsstring list" where
  "pushRelated desc keywords ws =
     foldl (\<lambda>ks word. if includesString desc word \<and> word \<notin> set ks then ks @ [word] else ks)
       keywords ws"

definition freepikCategoryWords :: "jsstring list list" where
  "freepikCategoryWords = map (map js)
     [[''table'', ''chair'', ''desk'', ''lamp'', ''computer'', ''phone'', ''book'', ''pen'',
       ''pencil'', ''notebook'', ''cup'', ''mug'', ''bottle'', ''glass'', ''plate'', ''bowl'',
       ''fork'', ''knife'', ''spoon'', ''watch'', ''clock'', ''bag'', ''box'', ''container'',
       ''bin'', ''trash'', ''recycle''],
      [''tree'', ''plant'', ''flower'', ''grass'', ''leaf'', ''mountain'', ''river'', ''lake'',
       ''ocean'', ''sea'', ''beach'', ''forest'', ''garden'', ''park'', ''sky'', ''cloud'',
       ''rain'', ''snow'', ''sun'', ''moon'', ''star''],
      [''dog'', ''cat'', ''bird'', ''fish'', ''horse'', ''cow'', ''sheep'', ''goat'', ''chicken'',
       ''pig'', ''duck'', ''rabbit'', ''mouse'', ''rat'', ''hamster'', ''guinea'', ''turtle'',
       ''snake'', ''lizard'', ''frog''],
      [''red'', ''blue'', ''green'', ''yellow'', ''orange'', ''purple'', ''pink'', ''brown'',
       ''black'', ''white'', ''gray'', ''gold'', ''silver'', ''bronze'', ''copper'',
       ''turquoise'', ''teal'', ''navy'', ''maroon'', ''olive''],
      [''wood'', ''metal'', ''plastic'', ''glass'', ''ceramic'', ''cotton'', ''wool'', ''silk'',
       ''leather'', ''paper'', ''cardboard'', ''stone'', ''marble'', ''granite'', ''concrete'',
       ''brick'', ''rubber''],
      [''happy'', ''sad'', ''angry'', ''calm'', ''quiet'', ''loud'', ''fast'', ''slow'', ''big'',
       ''small'', ''tall'', ''short'', ''long'', ''wide'', ''narrow'', ''thick'', ''thin'',
       ''heavy'', ''light'', ''old'', ''new'', ''young'', ''ancient'', ''modern'',
       ''futuristic'', ''vintage'', ''retro'', ''classic'', ''traditional'',
       ''contemporary'']]"

definition styleAdjectives :: "jsstring list" where
  "styleAdjectives = map js
     [''elegant'', ''beautiful'', ''stylish'', ''modern'', ''rustic'', ''minimalist'',
      ''luxurious'', ''colorful'', ''vintage'', ''artistic'']"

definition getRelevantFreepikKeywords :: "(jsstring \<Rightarrow> jsstring) \<Rightarrow> jsstring \<Rightarrow> jsstring list" where
  "getRelevantFreepikKeywords toLowerCase imageDescription =
     (let desc = toLowerCase imageDescription;
          ws = filter (\<lambda>word. length word > 0)
                 (map (\<lambda>word. replaceAll (\<lambda>c. \<not> regex_w c) [] word)
                    (filter (\<lambda>word. length word > 3) (splitWhitespace desc)));
          uniqueWords = uniqueValues ws;
          k1 = foldl (pushRelated desc) uniqueWords freepikCategoryWords;
          k2 = pushRelated desc k1 styleAdjectives;
          k3 = (if length k2 < 15 then
                  (let a = (if includesString desc (js ''indoor'') \<or>
                               includesString desc (js ''room'') \<or>
                               includesString desc (js ''interior'')
                            then k2 @ map js [''interior'', ''indoor'', ''home'', ''decor'']
                            else k2);
                       b = (if includesString desc (js ''outdoor'') \<or>
                               includesString desc (js ''outside'') \<or>
                               includesString desc (js ''garden'')
                            then a @ map js [''outdoor'', ''exterior'', ''garden'', ''nature'']
                            else a)
                   in if includesString desc (js ''person'') \<or>
                         includesString desc (js ''people'') \<or>
                         includesString desc (js ''man'') \<or>
                         includesString desc (js ''woman'')
                      then b @ map js [''person'', ''people'', ''lifestyle'', ''portrait'']
                      else b)
                else k2)
      in take 30 (uniqueValues k3))"

text \<open>
  \<open>analyzeImageWithGemini\<close>. A value thrown inside its \<^verbatim>\<open>try\<close> block is an Error
  object with a message, or something else (the event of a failed \<^verbatim>\<open>FileReader\<close>).
\<close>

datatype thrown = ErrorObject jsstring | OtherValue

text \<open>
  The steps after \<^verbatim>\<open>JSON.parse\<close>: the title is stripped of symbols, the Freepik
  branch falls back to generated keywords, the Shutterstock and Adobe Stock branches
  suggest categories (a TypeError of the matcher is thrown on), and the result is built
  with \<^verbatim>\<open>x || ''\<close> defaults.
\<close>

definition orEmpty :: "jsstring option \<Rightarrow> jsstring" where
  "orEmpty x = (case x of Some s \<Rightarrow> s | None \<Rightarrow> [])"

definition postProcess :: "ai_world \<Rightarrow> analysis_options \<Rightarrow> parsed_json \<Rightarrow> thrown + analysis_result" where
  "postProcess w opts parsed =
     (let isFreepikOnly = (platforms opts = [Freepik]);
          isShutterstock = (platforms opts = [Shutterstock]);
          isAdobeStock = (platforms opts = [AdobeStock]);
          title1 = (case json_title parsed of
                      Some t \<Rightarrow> if t \<noteq> [] then Some (removeSymbolsFromTitle t) else Some t
                    | None \<Rightarrow> None);
          keywords1 = (if isFreepikOnly then
                         (case json_keywords parsed of
                            Some ks \<Rightarrow>
                              if length ks < minKeywords opts
                              then Some (getRelevantFreepikKeywords (lowerCase w) (orEmpty (json_prompt parsed)))
                              else Some ks
                          | None \<Rightarrow>
                              Some (getRelevantFreepikKeywords (lowerCase w) (orEmpty (json_prompt parsed))))
                       else json_keywords parsed);
          baseModel1 = (if isFreepikOnly then Some (js ''leonardo'') else json_baseModel parsed);
          categories1 =
            (if isShutterstock then
               (case suggestCategoriesForShutterstock (lowerCase w) (orEmpty title1)
                       (orEmpty (json_description parsed)) of
                  Inl TypeError \<Rightarrow> Inl (ErrorObject (notIterableMessage w))
                | Inr cs \<Rightarrow> Inr (Some cs))
             else Inr (json_categories parsed))
      in case categories1 of
           Inl e \<Rightarrow> Inl e
         | Inr categories2 \<Rightarrow>
             (case (if isAdobeStock then
                      (case suggestCategoriesForAdobeStock (lowerCase w) (orEmpty title1)
                              (case keywords1 of Some ks \<Rightarrow> ks | None \<Rightarrow> []) of
                         Inl TypeError \<Rightarrow> Inl (ErrorObject (notIterableMessage w))
                       | Inr cs \<Rightarrow> Inr (Some cs))
                    else Inr categories2) of
                Inl e \<Rightarrow> Inl e
              | Inr categories3 \<Rightarrow>
                  Inr \<lparr>title = orEmpty title1,
                       description = orEmpty (json_description parsed),
                       keywordList = (case keywords1 of Some ks \<Rightarrow> ks | None \<Rightarrow> []),
                       prompt = json_prompt parsed,
                       baseModel = Some (case baseModel1 of
                                           Some b \<Rightarrow> if b \<noteq> [] then b else js ''leonardo''
                                         | None \<Rightarrow> js ''leonardo''),
                       categories = categories3,
                       analysis_error = None\<rparr>))"

text \<open>
  The \<^verbatim>\<open>try\<close> block. An SVG file is converted to PNG first; when the conversion
  fails the original file is sent (\<open>fileToProcess\<close>). \<open>requestFor\<close> is the request
  sent for a file and its data URL \<^verbatim>\<open>base64Image\<close>, whose part after the first
  comma is the data. On an HTTP error the block throws
  \<^verbatim>\<open>new Error(errorData?.error?.message || 'Failed to analyze image')\<close>, whatever
  kind of value the message of the body is.
\<close>

definition fileToProcess :: "ai_world \<Rightarrow> js_file \<Rightarrow> js_file" where
  "fileToProcess w imageFile =
     (let isSvg = (file_type imageFile = js ''image/svg+xml'' \<or>
                   endsWith (lowerCase w (file_name imageFile)) (js ''.svg''))
      in if isSvg then
           (case readFileAsText w imageFile of
              None \<Rightarrow> imageFile
            | Some svgContent \<Rightarrow>
                (case convertSvgToPng w svgContent of
                   None \<Rightarrow> imageFile
                 | Some png \<Rightarrow> png))
         else imageFile)"

definition requestFor :: "js_file \<Rightarrow> jsstring \<Rightarrow> analysis_options \<Rightarrow> jsstring \<Rightarrow> request" where
  "requestFor sent apiKey opts base64Image =
     (let pieces = splitComma [] base64Image;
          base64Data = (if length pieces > 1 then Some (pieces ! 1) else None)
      in \<lparr>req_apiKey = apiKey, req_options = opts, req_mime_type = file_type sent,
          req_data = base64Data\<rparr>)"

definition analyzeBody :: "ai_world \<Rightarrow> js_file \<Rightarrow> jsstring \<Rightarrow> analysis_options \<Rightarrow> thrown + analysis_result" where
  "analyzeBody w imageFile apiKey opts =
     (case fileToBase64 w (fileToProcess w imageFile) of
        None \<Rightarrow> Inl OtherValue
      | Some base64Image \<Rightarrow>
          (case fetch w (requestFor (fileToProcess w imageFile) apiKey opts base64Image) of
             FetchRejected m \<Rightarrow> Inl (ErrorObject m)
           | ErrorStatusUnreadable m \<Rightarrow> Inl (ErrorObject m)
           | ErrorStatus errorData \<Rightarrow>
               (case optionalMember (optionalMember (Some errorData) (js ''error'')) (js ''message'') of
                  None \<Rightarrow> Inl (ErrorObject (js ''Failed to analyze image''))
                | Some v \<Rightarrow>
                    if truthy v then
                      (case toString v of
                         Inl TypeError \<Rightarrow> Inl (ErrorObject (notPrimitiveMessage w))
                       | Inr message \<Rightarrow> Inl (ErrorObject message))
                    else Inl (ErrorObject (js ''Failed to analyze image'')))
           | OkUnreadable m \<Rightarrow> Inl (ErrorObject m)
           | OkText text \<Rightarrow>
               if generationMode opts = ImageToPrompt then
                 Inr \<lparr>title = [], description = trim text, keywordList = [],
                      prompt = None, baseModel = None, categories = None,
                      analysis_error = None\<rparr>
               else
                 (case jsonParse w (extractJson text) of
                    None \<Rightarrow>
                      Inl (ErrorObject (js ''Failed to parse metadata from the API response''))
                  | Some parsed \<Rightarrow> postProcess w opts parsed)))"

text \<open>
  \<^verbatim>\<open>
  } catch (error) {
    return { title: '', description: '', keywords: [],
             error: error instanceof Error ? error.message : 'Unknown error occurred' };
  }
  \<close>
\<close>

definition errorResult :: "jsstring \<Rightarrow> analysis_result" where
  "errorResult message =
     \<lparr>title = [], description = [], keywordList = [], prompt = None, baseModel = None,
      categories = None, analysis_error = Some message\<rparr>"

definition analyzeImageWithGemini :: "ai_world \<Rightarrow> js_file \<Rightarrow> jsstring \<Rightarrow> analysis_options \<Rightarrow> analysis_result" where
  "analyzeImageWithGemini w imageFile apiKey opts =
     (case analyzeBody w imageFile apiKey opts of
        Inr r \<Rightarrow> r
      | Inl (ErrorObject message) \<Rightarrow> errorResult message
      | Inl OtherValue \<Rightarrow> errorResult (js ''Unknown error occurred''))"

section \<open>Processing orchestrator\<close>

text \<open>
  The page component \<^verbatim>\<open>Index\<close>: its image list, and what a run of
  \<^verbatim>\<open>handleProcessImages\<close> does, as the list of its actions in order. \<open>SetImages\<close>
  carries the image list after a \<^verbatim>\<open>setImages\<close> update, \<open>Delay\<close> the
  milliseconds of a \<^verbatim>\<open>setTimeout\<close> wait, \<open>Analyze\<close> the file of a call of
  \<open>analyzeImageWithGemini\<close>.
\<close>

datatype action =
    Toast notice
  | IncrementCredits
  | SetIsProcessing bool
  | SetImages "processed_image list"
  | Delay nat
  | Analyze js_file

record page =
  apiKey :: jsstring
  images :: "processed_image list"
  canGenerateMetadata :: bool
  options :: analysis_options

text \<open>
  \<^verbatim>\<open>handleImagesSelected\<close>, \<^verbatim>\<open>handleRemoveImage\<close>, \<^verbatim>\<open>handleClearAll\<close>.
\<close>

definition handleImagesSelected :: "processed_image list \<Rightarrow> processed_image list \<Rightarrow> processed_image list" where
  "handleImagesSelected newImages prev = prev @ newImages"

definition handleRemoveImage :: "jsstring \<Rightarrow> processed_image list \<Rightarrow> processed_image list" where
  "handleRemoveImage i prev = filter (\<lambda>img. image_id img \<noteq> i) prev"

definition handleClearAll :: "processed_image list \<Rightarrow> processed_image list" where
  "handleClearAll prev = []"

text \<open>
  \<^verbatim>\<open>
  setImages(prev => prev.map(img => img.status === 'pending'
    ? { ...img, status: 'processing' as const } : img));
  \<close>
\<close>

definition markProcessing :: "processed_image list \<Rightarrow> processed_image list" where
  "markProcessing prev =
     map (\<lambda>img. if status img = Pending then img\<lparr>status := Processing\<rparr> else img) prev"

text \<open>
  \<^verbatim>\<open>
  setImages(prev => prev.map(img => img.id === image.id ? {
    ...img,
    status: result.error ? 'error' as const : 'complete' as const,
    result: result.error ? undefined : { title: ..., description: ..., keywords: ...,
      ...(isFreepikOnly && { prompt: result.prompt, baseModel: result.baseModel }),
      ...(isShutterstock && { categories: result.categories }) },
    error: result.error
  } : img));
  \<close>
  \<^verbatim>\<open>result.error\<close> is truthy when it is there and not the empty string.
\<close>

definition hasError :: "analysis_result \<Rightarrow> bool" where
  "hasError res = (case analysis_error res of Some message \<Rightarrow> message \<noteq> [] | None \<Rightarrow> False)"

definition storeResult ::
  "analysis_options \<Rightarrow> processed_image \<Rightarrow> analysis_result \<Rightarrow> processed_image list \<Rightarrow> processed_image list" where
  "storeResult opts im res prev =
     (let isFreepikOnly = (platforms opts = [Freepik]);
          isShutterstock = (platforms opts = [Shutterstock])
      in map (\<lambda>img.
            if image_id img = image_id im then
              img\<lparr>status := (if hasError res then Error else Complete),
                  result := (if hasError res then None
                             else Some \<lparr>title = title res,
                                       description = description res,
                                       keywordList = keywordList res,
                                       prompt = (if isFreepikOnly then prompt res else None),
                                       baseModel = (if isFreepikOnly then baseModel res else None),
                                       categories = (if isShutterstock then categories res else None)\<rparr>),
                  error := analysis_error res\<rparr>
            else img) prev)"

text \<open>
  The loop \<^verbatim>\<open>for (const image of pendingImages)\<close>, \<open>im\<close> being
  \<^verbatim>\<open>image\<close>. \<open>i\<close> is the position of \<open>im\<close> in \<^verbatim>\<open>pendingImages\<close>, which is what \<^verbatim>\<open>pendingImages.indexOf(image)\<close>
  returns for the distinct objects of the array; \<open>cur\<close> is the image list of the page.
  \<open>w i\<close> is the browser and the network as the \<open>i\<close>-th call finds them. The
  \<^verbatim>\<open>catch\<close> of the loop body has nothing to catch, since
  \<open>analyzeImageWithGemini\<close> returns a result on every path.
\<close>

fun processLoop ::
  "(nat \<Rightarrow> ai_world) \<Rightarrow> jsstring \<Rightarrow> analysis_options \<Rightarrow> nat \<Rightarrow> processed_image list \<Rightarrow>
   processed_image list \<Rightarrow> action list" where
  "processLoop w key opts i [] cur = []"
| "processLoop w key opts i (im # rest) cur =
     (let res = analyzeImageWithGemini (w i) (image_file im) key opts;
          cur' = storeResult opts im res cur
      in (if i > 0 then [Delay 2000] else []) @
         [Analyze (image_file im), SetImages cur'] @
         processLoop w key opts (i + 1) rest cur')"

text \<open>
  \<^verbatim>\<open>handleProcessImages\<close>. \<^verbatim>\<open>incrementCreditsUsed\<close> belongs to the
  authentication context, which is not among the sources; \<open>canProceed\<close> is what it
  returns.
\<close>

definition handleProcessImages :: "page \<Rightarrow> bool \<Rightarrow> (nat \<Rightarrow> ai_world) \<Rightarrow> action list" where
  "handleProcessImages p canProceed w =
     (if apiKey p = [] then [Toast EnterApiKeyFirst]
      else
        (let pendingImages = filter (\<lambda>img. status img = Pending) (images p)
         in if length pendingImages = 0 then [Toast NoImagesToProcess]
            else if \<not> canGenerateMetadata p then [Toast FreeLimitReached]
            else if \<not> canProceed then [IncrementCredits]
            else [IncrementCredits, SetIsProcessing True, SetImages (markProcessing (images p))] @
                 processLoop w (apiKey p) (options p) 0 pendingImages (markProcessing (images p)) @
                 [Toast AllImagesProcessed, SetIsProcessing False]))"

text \<open>
  Reading a run: the image list after it (the last \<open>SetImages\<close>, or the list as it
  was), the files sent to the AI client, and the waits.
\<close>

fun finalImages :: "action list \<Rightarrow> processed_image list \<Rightarrow> processed_image list" where
  "finalImages [] cur = cur"
| "finalImages (SetImages s # acts) cur = finalImages acts s"
| "finalImages (act # acts) cur = finalImages acts cur"

fun analyzedFiles :: "action list \<Rightarrow> js_file list" where
  "analyzedFiles [] = []"
| "analyzedFiles (Analyze f # acts) = f # analyzedFiles acts"
| "analyzedFiles (act # acts) = analyzedFiles acts"

fun delays :: "action list \<Rightarrow> nat list" where
  "delays [] = []"
| "delays (Delay ms # acts) = ms # delays acts"
| "delays (act # acts) = delays acts"

fun snapshots :: "action list \<Rightarrow> processed_image list list" where
  "snapshots [] = []"
| "snapshots (SetImages s # acts) = s # snapshots acts"
| "snapshots (act # acts) = snapshots acts"

text \<open>The statuses of the images that carry a given id (one image when ids are distinct).\<close>

definition statusOf :: "jsstring \<Rightarrow> processed_image list \<Rightarrow> status list" where
  "statusOf i imgs = map status (filter (\<lambda>img. image_id img = i) imgs)"

text \<open>
  The page over time. The uploader hands \<^verbatim>\<open>processFiles\<close>' images to
  \<^verbatim>\<open>handleImagesSelected\<close>; the results list calls \<^verbatim>\<open>handleRemoveImage\<close> and
  \<^verbatim>\<open>handleClearAll\<close>; the button calls \<^verbatim>\<open>handleProcessImages\<close>, with the key,
  the credit flags and the options the page holds at that moment. A run of
  \<^verbatim>\<open>handleProcessImages\<close> is taken as one step. \<open>app_log\<close> collects the actions
  of all runs.
\<close>

record app =
  app_images :: "processed_image list"
  app_log :: "action list"

datatype event =
    FilesChosen upload_env "js_file list"
  | RemoveClicked jsstring
  | ClearAllClicked
  | ProcessClicked jsstring bool analysis_options bool "nat \<Rightarrow> ai_world"

definition initialApp :: app where
  "initialApp = \<lparr>app_images = [], app_log = []\<rparr>"

fun step :: "app \<Rightarrow> event \<Rightarrow> app" where
  "step st (FilesChosen env files) =
     (case fst (processFiles env files) of
        Some validResults \<Rightarrow> st\<lparr>app_images := handleImagesSelected validResults (app_images st)\<rparr>
      | None \<Rightarrow> st)"
| "step st (RemoveClicked i) = st\<lparr>app_images := handleRemoveImage i (app_images st)\<rparr>"
| "step st ClearAllClicked = st\<lparr>app_images := handleClearAll (app_images st)\<rparr>"
| "step st (ProcessClicked key canGenerate opts canProceed w) =
     (let acts = handleProcessImages
                   \<lparr>apiKey = key, images = app_images st, canGenerateMetadata = canGenerate,
                    options = opts\<rparr> canProceed w
      in \<lparr>app_images = finalImages acts (app_images st), app_log = app_log st @ acts\<rparr>)"

definition run :: "app \<Rightarrow> event list \<Rightarrow> app" where
  "run st evs = foldl step st evs"

text \<open>
  The status an image takes when its analysis result is stored.
\<close>

definition outcome :: "analysis_result \<Rightarrow> status" where
  "outcome res = (if hasError res then Error else Complete)"




text \<open>All images of the page and all files the runs have analysed passed the upload check.\<close>

definition validApp :: "app \<Rightarrow> bool" where
  "validApp st \<longleftrightarrow>
     list_all (\<lambda>img. isValidMediaType (image_file img)) (app_images st) \<and>
     list_all isValidMediaType (analyzedFiles (app_log st))"

section \<open>Example inputs\<close>

text \<open>Concrete values for the witnesses and counterexamples below.\<close>

definition examplePending :: processed_image where
  "examplePending =
     \<lparr>image_id = js ''k3x9q2a'',
      image_file = \<lparr>file_name = js ''sunset.png'', file_type = js ''image/png'', file_size = 2048\<rparr>,
      previewUrl = js ''data:image/png;base64,AAAA'',
      status = Pending, result = None, error = None\<rparr>"

definition exampleMetadata :: metadata where
  "exampleMetadata =
     \<lparr>title = js ''Sunset & sea'', description = [], keywordList = [js ''sunset'', js ''sea''],
      prompt = None, baseModel = None, categories = None\<rparr>"

definition exampleComplete :: processed_image where
  "exampleComplete = examplePending\<lparr>status := Complete, result := Some exampleMetadata\<rparr>"

definition exampleVideo :: processed_image where
  "exampleVideo =
     exampleComplete\<lparr>image_file :=
       \<lparr>file_name = js ''sunset.mp4'', file_type = js ''video/mp4'', file_size = 4096\<rparr>\<rparr>"

definition examplePdf :: js_file where
  "examplePdf = \<lparr>file_name = js ''report.pdf'', file_type = js ''application/pdf'', file_size = 1024\<rparr>"

definition examplePng :: js_file where
  "examplePng = \<lparr>file_name = js ''sunset.png'', file_type = js ''image/png'', file_size = 2048\<rparr>"

definition exampleUploadEnv :: upload_env where
  "exampleUploadEnv =
     \<lparr>createImagePreview = (\<lambda>f. Some (js ''data:image/png;base64,AAAA'')),
      generateId = (\<lambda>i. numberToString i)\<rparr>"

definition exampleOptions :: analysis_options where
  "exampleOptions =
     \<lparr>platforms = [AdobeStock], generationMode = Metadata,
      minTitleWords = 12, maxTitleWords = 15, minKeywords = 35, maxKeywords = 45,
      minDescriptionWords = 12, maxDescriptionWords = 30\<rparr>"

text \<open>
  A world in which the model endpoint answers every request with an HTTP error whose body
  is \<^verbatim>\<open>{"error": {"message": "Quota exceeded"}}\<close>.
\<close>

definition quotaWorld :: ai_world where
  "quotaWorld =
     \<lparr>readFileAsText = (\<lambda>f. None),
      convertSvgToPng = (\<lambda>s. None),
      fileToBase64 = (\<lambda>f. Some (js ''data:image/png;base64,AAAA'')),
      fetch = (\<lambda>r. ErrorStatus
                (JObject [(js ''error'', JObject [(js ''message'', JString (js ''Quota exceeded''))])])),
      jsonParse = (\<lambda>s. None),
      lowerCase = asciiToLowerCase,
      notIterableMessage = js ''categoryMatches[word] is not iterable'',
      notPrimitiveMessage = js ''Cannot convert object to primitive value''\<rparr>"


definition image1 :: processed_image where
  "image1 = examplePending\<lparr>image_id := js ''a1''\<rparr>"

definition image2 :: processed_image where
  "image2 = examplePending\<lparr>image_id := js ''b2''\<rparr>"

definition image3 :: processed_image where
  "image3 = examplePending\<lparr>image_id := js ''c3''\<rparr>"

definition examplePage :: page where
  "examplePage =
     \<lparr>apiKey = js ''key'', images = [image1, image2, image3], canGenerateMetadata = True,
      options = exampleOptions\<rparr>"

section \<open>The matcher as the specification words it\<close>

text \<open>
  The categories that the words of a text hit in a table, one entry per hit: each word
  that is a key of the table contributes the categories listed for it. The count of a
  category is the number of its hits.
\<close>

definition tableHits :: "category_table \<Rightarrow> jsstring list \<Rightarrow> jsstring list" where
  "tableHits tbl ws =
     concat (map (\<lambda>w. case ownProperty tbl w of Some cats \<Rightarrow> cats | None \<Rightarrow> []) ws)"

definition adobeStockHits :: "(jsstring \<Rightarrow> jsstring) \<Rightarrow> jsstring \<Rightarrow> jsstring list \<Rightarrow> jsstring list" where
  "adobeStockHits toLowerCase t ks =
     tableHits adobeStockMatches (adobeStockWords toLowerCase t ks)"

definition shutterstockHits :: "(jsstring \<Rightarrow> jsstring) \<Rightarrow> jsstring \<Rightarrow> jsstring \<Rightarrow> jsstring list" where
  "shutterstockHits toLowerCase t d =
     tableHits shutterstockMatches (shutterstockWords toLowerCase t d)"

text \<open>The count a dictionary holds for a category, 0 when the category is no key of it.\<close>

definition countOf :: "category_count \<Rightarrow> jsstring \<Rightarrow> nat" where
  "countOf cc c = (case map_of cc c of None \<Rightarrow> 0 | Some n \<Rightarrow> n)"

text \<open>
  \<open>specCounts hits cc\<close>: the dictionary \<open>cc\<close> holds exactly the categories that were
  hit, each with its number of hits.
\<close>

definition specCounts :: "jsstring list \<Rightarrow> category_count \<Rightarrow> bool" where
  "specCounts hits cc = (set cc = (\<lambda>c. (c, count_list hits c)) ` set hits)"

text \<open>
  \<open>specTopOne hits fallback res\<close>: \<open>res\<close> is the fallback list when nothing was hit,
  and otherwise the one category with the most hits (no category has more).
\<close>

definition specTopOne :: "jsstring list \<Rightarrow> jsstring list \<Rightarrow> jsstring list \<Rightarrow> bool" where
  "specTopOne hits fallback res =
     (if hits = [] then res = fallback
      else \<exists>c \<in> set hits. res = [c] \<and> (\<forall>d. count_list hits d \<le> count_list hits c))"

text \<open>
  \<open>specTopTwo hits fallback res\<close>: \<open>res\<close> is the fallback list when nothing was hit;
  the one category hit, followed by the first fallback category, when one category was
  hit; and otherwise two different categories that were hit, the first with at least as
  many hits as the second, and every other category with at most as many as the second.
\<close>

definition specTopTwo :: "jsstring list \<Rightarrow> jsstring list \<Rightarrow> jsstring list \<Rightarrow> bool" where
  "specTopTwo hits fallback res =
     (if hits = [] then res = fallback
      else if card (set hits) = 1 then res = [hd hits, hd fallback]
      else \<exists>c1 \<in> set hits. \<exists>c2 \<in> set hits.
             res = [c1, c2] \<and> c1 \<noteq> c2 \<and> count_list hits c2 \<le> count_list hits c1 \<and>
             (\<forall>d. d = c1 \<or> count_list hits d \<le> count_list hits c2))"

text \<open>
  \<open>rowsWithin allowed rows\<close>: every category listed in a row of a table is one of
  \<open>allowed\<close>.
\<close>

fun rowsWithin :: "'v list \<Rightarrow> ('k \<times> 'v list) list \<Rightarrow> bool" where
  "rowsWithin allowed [] = True"
| "rowsWithin allowed ((k, vs) # rows) =
     (if list_all (\<lambda>v. v \<in> set allowed) vs then rowsWithin allowed rows else False)"
section \<open>Properties of symbol stripping\<close>

lemma replaceAll_empty_filter: "replaceAll cls [] s = filter (\<lambda>c. \<not> cls c) s"
  by (induction s) simp_all

lemma removeSymbolsFromTitle_filter: "removeSymbolsFromTitle s = filter titleClass s"
  by (simp add: removeSymbolsFromTitle_def replaceAll_empty_filter)

text \<open>
  Claim C2, as the code has it: for every title, \<open>removeSymbolsFromTitle\<close> returns the
  title with every code unit removed except the ASCII letters and digits, the
  underscore, the whitespace characters of \<^verbatim>\<open>\s\<close> (the space among them), commas,
  periods, hyphens and parentheses; the kept code units stay in their order.
\<close>

theorem removeSymbolsFromTitle_keeps:
  "removeSymbolsFromTitle s =
     filter (\<lambda>c. alphanumeric c \<or> c = 0x5F \<or> regex_s c \<or> c = 0x2C \<or> c = 0x2E \<or>
                 c = 0x2D \<or> c = 0x28 \<or> c = 0x29) s"
  unfolding removeSymbolsFromTitle_filter
  by (rule filter_cong) (auto simp: titleClass_def regex_w_def alphanumeric_def)

text \<open>
  Claim C2 as stated fails: the title \<^verbatim>\<open>a_b!\<close> contains the banned symbol
  \<^verbatim>\<open>!\<close>; the claim's kept set reduces it to \<^verbatim>\<open>ab\<close>, the code returns
  \<^verbatim>\<open>a_b\<close>, because \<^verbatim>\<open>\w\<close> contains the underscore.
\<close>

theorem removeSymbolsFromTitle_underscore_counterexample:
  "(\<exists>c \<in> set (js ''a_b!''). \<not> keptBySpec c) \<and>
   filter keptBySpec (js ''a_b!'') = js ''ab'' \<and>
   removeSymbolsFromTitle (js ''a_b!'') = js ''a_b'' \<and>
   removeSymbolsFromTitle (js ''a_b!'') \<noteq> filter keptBySpec (js ''a_b!'')"
  by (simp add: js_def removeSymbolsFromTitle_filter titleClass_def regex_w_def regex_s_def
      keptBySpec_def alphanumeric_def)

text \<open>
  Claim C9: \<open>removeSymbolsFromTitle\<close> is idempotent, on every string.
\<close>

theorem removeSymbolsFromTitle_idempotent:
  "removeSymbolsFromTitle (removeSymbolsFromTitle s) = removeSymbolsFromTitle s"
  by (simp add: removeSymbolsFromTitle_filter)

section \<open>Properties of the category matcher\<close>

subsection \<open>Counting\<close>

lemma countWords_hits:
  "set ws \<inter> set objectPrototypeKeys = {} \<Longrightarrow>
   countWords tbl cc ws = Inr (foldl increment cc (tableHits tbl ws))"
proof (induction ws arbitrary: cc)
  case Nil
  then show ?case by (simp add: tableHits_def)
next
  case (Cons w ws)
  then have w: "w \<notin> set objectPrototypeKeys" and ws: "set ws \<inter> set objectPrototypeKeys = {}"
    by auto
  show ?case
    using w Cons.IH [OF ws]
    by (auto simp: countWord_def getProperty_def tableHits_def split: option.splits)
qed

lemma map_of_increment:
  "map_of (increment cc c) = (map_of cc)(c \<mapsto> (case map_of cc c of None \<Rightarrow> 1 | Some n \<Rightarrow> n + 1))"
  by (induction cc c rule: increment.induct) (auto simp: fun_eq_iff)

lemma keys_increment:
  "map fst (increment cc c) = (if c \<in> set (map fst cc) then map fst cc else map fst cc @ [c])"
  by (induction cc c rule: increment.induct) auto

lemma keyset_increment: "set (map fst (increment cc c)) = insert c (set (map fst cc))"
  unfolding keys_increment by auto

lemma distinct_increment: "distinct (map fst cc) \<Longrightarrow> distinct (map fst (increment cc c))"
  by (simp add: keys_increment)

lemma countOf_increment: "countOf (increment cc c) d = countOf cc d + (if d = c then 1 else 0)"
  by (auto simp: countOf_def map_of_increment split: option.splits)

lemma countOf_foldl: "countOf (foldl increment cc hs) d = countOf cc d + count_list hs d"
  by (induction hs arbitrary: cc) (auto simp: countOf_increment)

lemma keys_foldl: "set (map fst (foldl increment cc hs)) = set (map fst cc) \<union> set hs"
proof (induction hs arbitrary: cc)
  case Nil
  then show ?case by simp
next
  case (Cons h hs)
  have "set (map fst (foldl increment (increment cc h) hs)) =
        set (map fst (increment cc h)) \<union> set hs" by (rule Cons.IH)
  then show ?case unfolding keyset_increment by auto
qed

lemma distinct_foldl: "distinct (map fst cc) \<Longrightarrow> distinct (map fst (foldl increment cc hs))"
  by (induction hs arbitrary: cc) (auto simp: distinct_increment)

lemma entries_foldl:
  "set (foldl increment [] hs) = (\<lambda>c. (c, count_list hs c)) ` set hs"
proof -
  let ?cc = "foldl increment [] hs"
  have d: "distinct (map fst ?cc)" by (simp add: distinct_foldl)
  have k: "set (map fst ?cc) = set hs" using keys_foldl [of "[]" hs] by simp
  have c: "\<And>x. countOf ?cc x = count_list hs x"
    using countOf_foldl [of "[]" hs] by (simp add: countOf_def)
  show ?thesis
  proof (rule set_eqI, rule iffI)
    fix e assume e: "e \<in> set ?cc"
    obtain x n where xn: "e = (x, n)" by (cases e)
    from e xn d have "map_of ?cc x = Some n" by simp
    then have "countOf ?cc x = n" by (simp add: countOf_def)
    with c have "n = count_list hs x" by simp
    moreover from e xn k have "x \<in> set hs" by force
    ultimately show "e \<in> (\<lambda>c. (c, count_list hs c)) ` set hs" using xn by auto
  next
    fix e assume "e \<in> (\<lambda>c. (c, count_list hs c)) ` set hs"
    then obtain x where x: "x \<in> set hs" and e: "e = (x, count_list hs x)" by auto
    from x k obtain n where n: "(x, n) \<in> set ?cc" by force
    with d have "map_of ?cc x = Some n" by simp
    then have "countOf ?cc x = n" by (simp add: countOf_def)
    with c have "n = count_list hs x" by simp
    with n e show "e \<in> set ?cc" by simp
  qed
qed

lemma count_list_zero: "c \<notin> set hs \<Longrightarrow> count_list hs c = 0"
  by (induction hs) auto

lemma length_counts: "length (foldl increment [] hs) = card (set hs)"
proof -
  have "length (foldl increment [] hs) = length (map fst (foldl increment [] hs))" by simp
  also have "\<dots> = card (set (map fst (foldl increment [] hs)))"
    by (rule distinct_card [symmetric]) (simp add: distinct_foldl)
  also have "\<dots> = card (set hs)" using keys_foldl [of "[]" hs] by simp
  finally show ?thesis .
qed

lemma counts_empty: "foldl increment [] hs = [] \<longleftrightarrow> hs = []"
  using length_counts [of hs] by (metis card_0_eq List.finite_set length_0_conv set_empty)

subsection \<open>Sorting\<close>

lemma sortedCategories_set: "set (sortedCategories cc) = set (map fst cc)"
  by (simp add: sortedCategories_def)

lemma sortedCategories_length: "length (sortedCategories cc) = length cc"
  by (simp add: sortedCategories_def)

lemma sortedCategories_Nil: "sortedCategories cc = [] \<longleftrightarrow> cc = []"
  using sortedCategories_length [of cc] by (metis length_0_conv)

lemma sort_key_head:
  assumes "sort_key f xs = x # rest"
  shows "x \<in> set xs \<and> (\<forall>y \<in> set xs. f x \<le> f y)"
proof -
  have "sorted (map f (sort_key f xs))" by (rule sorted_sort_key)
  with assms have "\<forall>y \<in> set rest. f x \<le> f y" by auto
  moreover have "set xs = set (x # rest)" using assms by (metis set_sort)
  ultimately show ?thesis by auto
qed

lemma sort_key_second:
  assumes "sort_key f xs = x # y # rest"
  shows "y \<in> set xs \<and> f x \<le> f y \<and> (\<forall>z \<in> set xs. z = x \<or> f y \<le> f z)"
proof -
  have "sorted (map f (sort_key f xs))" by (rule sorted_sort_key)
  with assms have "f x \<le> f y" and "\<forall>z \<in> set rest. f y \<le> f z" by auto
  moreover have "set xs = set (x # y # rest)" using assms by (metis set_sort)
  ultimately show ?thesis by auto
qed

lemma distinct_keys_sort:
  assumes "distinct (map fst cc)"
  shows "distinct (map fst (sort_key f cc))"
  using assms by (simp add: distinct_map)

lemma top_one:
  assumes "cc \<noteq> []"
  shows "\<exists>e \<in> set cc. take 1 (sortedCategories cc) = [fst e] \<and> (\<forall>e' \<in> set cc. snd e' \<le> snd e)"
proof -
  let ?f = "\<lambda>entry :: jsstring \<times> nat. - int (snd entry)"
  from assms have "sort_key ?f cc \<noteq> []" by (metis length_sort length_0_conv)
  then obtain x rest where s: "sort_key ?f cc = x # rest" by (cases "sort_key ?f cc") auto
  from sort_key_head [OF s] have x: "x \<in> set cc" and le: "\<forall>y \<in> set cc. snd y \<le> snd x" by auto
  have "take 1 (sortedCategories cc) = [fst x]" by (simp add: sortedCategories_def s)
  with x le show ?thesis by blast
qed

lemma top_two:
  assumes "2 \<le> length cc" and "distinct (map fst cc)"
  shows "\<exists>e1 \<in> set cc. \<exists>e2 \<in> set cc. take 2 (sortedCategories cc) = [fst e1, fst e2] \<and>
           fst e1 \<noteq> fst e2 \<and> snd e2 \<le> snd e1 \<and>
           (\<forall>e \<in> set cc. fst e = fst e1 \<or> snd e \<le> snd e2)"
proof -
  let ?f = "\<lambda>entry :: jsstring \<times> nat. - int (snd entry)"
  from assms(1) have "2 \<le> length (sort_key ?f cc)" by simp
  then obtain x y rest where s: "sort_key ?f cc = x # y # rest"
    by (cases "sort_key ?f cc"; cases "tl (sort_key ?f cc)") auto
  from sort_key_head [OF s] have x: "x \<in> set cc" by auto
  from sort_key_second [OF s] have y: "y \<in> set cc" and xy: "snd y \<le> snd x"
    and rest: "\<forall>z \<in> set cc. z = x \<or> snd z \<le> snd y" by auto
  from distinct_keys_sort [OF assms(2), of ?f] s have ne: "fst x \<noteq> fst y" by auto
  have t: "take 2 (sortedCategories cc) = [fst x, fst y]" by (simp add: sortedCategories_def s)
  from rest have rest': "\<forall>e \<in> set cc. fst e = fst x \<or> snd e \<le> snd y" by auto
  show ?thesis
    by (rule bexI [OF _ x], rule bexI [OF _ y]) (use t ne xy rest' in simp)
qed

subsection \<open>The top categories\<close>

lemma top_one_hits:
  assumes "hs \<noteq> []"
  shows "\<exists>c \<in> set hs. take 1 (sortedCategories (foldl increment [] hs)) = [c] \<and>
           (\<forall>d. count_list hs d \<le> count_list hs c)"
proof -
  let ?cc = "foldl increment [] hs"
  from assms have "?cc \<noteq> []" by (simp add: counts_empty)
  from top_one [OF this] obtain e where e: "e \<in> set ?cc"
    and t: "take 1 (sortedCategories ?cc) = [fst e]"
    and le: "\<forall>e' \<in> set ?cc. snd e' \<le> snd e" by blast
  from e obtain c where c: "c \<in> set hs" and ec: "e = (c, count_list hs c)"
    unfolding entries_foldl by auto
  have "count_list hs d \<le> count_list hs c" for d
  proof (cases "d \<in> set hs")
    case True
    then have "(d, count_list hs d) \<in> set ?cc" unfolding entries_foldl by auto
    with le ec show ?thesis by auto
  next
    case False
    then show ?thesis by (simp add: count_list_zero)
  qed
  with c t ec show ?thesis by auto
qed

lemma top_two_hits:
  assumes "2 \<le> card (set hs)"
  shows "\<exists>c1 \<in> set hs. \<exists>c2 \<in> set hs.
           take 2 (sortedCategories (foldl increment [] hs)) = [c1, c2] \<and> c1 \<noteq> c2 \<and>
           count_list hs c2 \<le> count_list hs c1 \<and>
           (\<forall>d. d = c1 \<or> count_list hs d \<le> count_list hs c2)"
proof -
  let ?cc = "foldl increment [] hs"
  from assms have "2 \<le> length ?cc" by (simp add: length_counts)
  moreover have "distinct (map fst ?cc)" by (simp add: distinct_foldl)
  ultimately obtain e1 e2 where e1: "e1 \<in> set ?cc" and e2: "e2 \<in> set ?cc"
    and t: "take 2 (sortedCategories ?cc) = [fst e1, fst e2]"
    and ne: "fst e1 \<noteq> fst e2" and le: "snd e2 \<le> snd e1"
    and rest: "\<forall>e \<in> set ?cc. fst e = fst e1 \<or> snd e \<le> snd e2"
    using top_two [of ?cc] by blast
  from e1 obtain c1 where c1: "c1 \<in> set hs" and ec1: "e1 = (c1, count_list hs c1)"
    unfolding entries_foldl by auto
  from e2 obtain c2 where c2: "c2 \<in> set hs" and ec2: "e2 = (c2, count_list hs c2)"
    unfolding entries_foldl by auto
  have r: "d = c1 \<or> count_list hs d \<le> count_list hs c2" for d
  proof (cases "d \<in> set hs")
    case True
    then have "(d, count_list hs d) \<in> set ?cc" unfolding entries_foldl by auto
    with rest ec1 ec2 show ?thesis by auto
  next
    case False
    then show ?thesis by (simp add: count_list_zero)
  qed
  show ?thesis
    by (rule bexI [OF _ c1], rule bexI [OF _ c2]) (use t ne le r ec1 ec2 in auto)
qed

lemma single_hit:
  assumes "card (set hs) = 1"
  shows "sortedCategories (foldl increment [] hs) = [hd hs]"
proof -
  let ?cc = "foldl increment [] hs"
  from assms have "length (sortedCategories ?cc) = 1"
    by (simp add: sortedCategories_length length_counts)
  then obtain c where s: "sortedCategories ?cc = [c]"
    by (cases "sortedCategories ?cc") auto
  have "set (sortedCategories ?cc) = set hs"
    using keys_foldl [of "[]" hs] by (simp add: sortedCategories_set)
  with s have "set hs = {c}" by simp
  moreover from assms have "hs \<noteq> []" by auto
  ultimately have "hd hs = c" by (metis hd_in_set singletonD)
  with s show ?thesis by simp
qed

lemma adobeStock_top:
  assumes "set (adobeStockWords lc t ks) \<inter> set objectPrototypeKeys = {}"
  shows "\<exists>cc res.
           adobeStockCategoryCount lc t ks = Inr cc \<and>
           specCounts (adobeStockHits lc t ks) cc \<and>
           suggestCategoriesForAdobeStock lc t ks = Inr res \<and>
           specTopOne (adobeStockHits lc t ks) [js ''Animals''] res"
proof -
  let ?hs = "adobeStockHits lc t ks"
  let ?cc = "foldl increment [] ?hs"
  have cc: "adobeStockCategoryCount lc t ks = Inr ?cc"
    unfolding adobeStockCategoryCount_def adobeStockHits_def
    by (rule countWords_hits [OF assms])
  have res: "suggestCategoriesForAdobeStock lc t ks =
               Inr (if ?hs = [] then [js ''Animals''] else take 1 (sortedCategories ?cc))"
    by (simp add: suggestCategoriesForAdobeStock_def cc Let_def sortedCategories_Nil
          counts_empty Suc_le_eq)
  show ?thesis
  proof (cases "?hs = []")
    case True
    with cc res show ?thesis by (simp add: entries_foldl specCounts_def specTopOne_def)
  next
    case False
    from top_one_hits [OF False] cc res False show ?thesis
      by (auto simp: entries_foldl specCounts_def specTopOne_def)
  qed
qed

lemma shutterstock_top:
  assumes "set (shutterstockWords lc t d) \<inter> set objectPrototypeKeys = {}"
  shows "\<exists>cc res.
           shutterstockCategoryCount lc t d = Inr cc \<and>
           specCounts (shutterstockHits lc t d) cc \<and>
           suggestCategoriesForShutterstock lc t d = Inr res \<and>
           specTopTwo (shutterstockHits lc t d) [js ''Miscellaneous'', js ''Objects''] res"
proof -
  let ?hs = "shutterstockHits lc t d"
  let ?cc = "foldl increment [] ?hs"
  have cc: "shutterstockCategoryCount lc t d = Inr ?cc"
    unfolding shutterstockCategoryCount_def shutterstockHits_def
    by (rule countWords_hits [OF assms])
  have res: "suggestCategoriesForShutterstock lc t d =
               Inr (if 2 \<le> card (set ?hs) then take 2 (sortedCategories ?cc)
                    else take 2 (sortedCategories ?cc @ [js ''Miscellaneous'', js ''Objects'']))"
    by (simp add: suggestCategoriesForShutterstock_def cc Let_def sortedCategories_length
          length_counts)
  consider (none) "?hs = []" | (one) "?hs \<noteq> []" "card (set ?hs) = 1"
    | (more) "?hs \<noteq> []" "2 \<le> card (set ?hs)"
    by (metis One_nat_def Suc_1 Suc_leI card_gt_0_iff List.finite_set le_neq_implies_less
        set_empty)
  then show ?thesis
  proof cases
    case none
    then have "sortedCategories ?cc = []" by (simp add: sortedCategories_def)
    with none cc res show ?thesis by (simp add: entries_foldl specCounts_def specTopTwo_def)
  next
    case one
    with single_hit [OF one(2)] cc res show ?thesis
      by (simp add: entries_foldl specCounts_def specTopTwo_def)
  next
    case more
    then have "card (set ?hs) \<noteq> 1" by simp
    with more top_two_hits [OF more(2)] cc res show ?thesis
      by (auto simp: entries_foldl specCounts_def specTopTwo_def)
  qed
qed

subsection \<open>Evaluating the tables\<close>

lemma unat_of_char: "unat (of_char c :: code_unit) = of_char c"
proof -
  have "(of_char c :: nat) mod 256 = of_char c" by (rule of_char_mod_256)
  then have "(of_char c :: nat) < 256" by (metis mod_less_divisor zero_less_numeral)
  then have lt: "(of_char c :: nat) < 65536" by linarith
  have "(of_char c :: code_unit) = of_nat (of_char c)" by (simp add: of_nat_of_char)
  then have "unat (of_char c :: code_unit) = unat (of_nat (of_char c :: nat) :: code_unit)" by simp
  also have "\<dots> = of_char c" using lt by (simp add: unat_of_nat)
  finally show ?thesis .
qed

lemma inj_js: "inj js"
proof -
  have "inj (of_char :: char \<Rightarrow> code_unit)"
    by (rule injI) (metis unat_of_char of_char_eq_iff)
  then show ?thesis unfolding js_def by (rule list.inj_map)
qed

lemma js_eq_iff: "js a = js b \<longleftrightarrow> a = b"
  by (rule inj_eq [OF inj_js])

lemma js_mem_iff: "js w \<in> set (map js ws) \<longleftrightarrow> w \<in> set ws"
  by (auto simp: js_eq_iff)

lemma ownProperty_objectLiteral:
  "ownProperty (objectLiteral rows) (js w) = map_option (map js) (ownProperty rows w)"
  unfolding objectLiteral_def
  by (induction rows) (auto simp: js_eq_iff split: option.splits)

lemma ownProperty_weak_cong: "key = key' \<Longrightarrow> ownProperty rows key = ownProperty rows key'"
  by simp

lemma getProperty_literal:
  "getProperty (objectLiteral rows) (js w) =
     (case ownProperty rows w of
        Some cats \<Rightarrow> Own (map js cats)
      | None \<Rightarrow> if js w \<in> set objectPrototypeKeys then Inherited else Undefined)"
  by (simp add: getProperty_def ownProperty_objectLiteral split: option.splits)

lemma adobeStock_rows:
  "ownProperty adobeStockMatchesLiteral ''cat'' = Some [''Animals'']"
  "ownProperty adobeStockMatchesLiteral ''dog'' = Some [''Animals'']"
  "ownProperty adobeStockMatchesLiteral ''a'' = None"
  "ownProperty adobeStockMatchesLiteral ''and'' = None"
  "ownProperty adobeStockMatchesLiteral [] = None"
  "ownProperty adobeStockMatchesLiteral ''constructor'' = None"
  unfolding adobeStockMatchesLiteral_def by (simp_all cong: ownProperty_weak_cong)

lemma shutterstock_rows:
  "ownProperty shutterstockMatchesLiteral ''cat'' = Some [''Animals/Wildlife'']"
  "ownProperty shutterstockMatchesLiteral [] = None"
  "ownProperty shutterstockMatchesLiteral ''constructor'' = None"
  unfolding shutterstockMatchesLiteral_def by (simp_all cong: ownProperty_weak_cong)

lemma not_prototype_keys:
  "js ''a'' \<notin> set objectPrototypeKeys" "js ''and'' \<notin> set objectPrototypeKeys"
  "js [] \<notin> set objectPrototypeKeys" "js ''cat'' \<notin> set objectPrototypeKeys"
  "js ''dog'' \<notin> set objectPrototypeKeys"
  unfolding objectPrototypeKeys_def js_mem_iff by simp_all

lemma constructor_prototype_key: "js ''constructor'' \<in> set objectPrototypeKeys"
  unfolding objectPrototypeKeys_def js_mem_iff by simp

lemma adobeStock_words_cat_dog:
  "adobeStockWords asciiToLowerCase (js ''A cat and a dog'') [js ''cat'', js ''dog''] =
     map js [''a'', ''cat'', ''and'', ''a'', ''dog'', ''cat'', ''dog'']"
  by (simp add: adobeStockWords_def splitWhitespace_def asciiToLowerCase_def js_def regex_s_def)

lemma adobeStock_words_cat:
  "adobeStockWords asciiToLowerCase (js ''cat'') [] = map js [''cat'', []]"
  by (simp add: adobeStockWords_def splitWhitespace_def asciiToLowerCase_def js_def regex_s_def)

lemma shutterstock_words_cat:
  "shutterstockWords asciiToLowerCase (js ''cat'') [] = map js [''cat'', []]"
  by (simp add: shutterstockWords_def splitWhitespace_def asciiToLowerCase_def js_def regex_s_def)

lemma adobeStock_words_constructor:
  "adobeStockWords asciiToLowerCase (js ''Constructor at work'') [] =
     map js [''constructor'', ''at'', ''work'', []]"
  by (simp add: adobeStockWords_def splitWhitespace_def asciiToLowerCase_def js_def regex_s_def)

lemma shutterstock_words_constructor:
  "shutterstockWords asciiToLowerCase (js ''Constructor at work'') [] =
     map js [''constructor'', ''at'', ''work'', []]"
  by (simp add: shutterstockWords_def splitWhitespace_def asciiToLowerCase_def js_def regex_s_def)

lemma adobeStock_count_cat_dog:
  "adobeStockCategoryCount asciiToLowerCase (js ''A cat and a dog'') [js ''cat'', js ''dog''] =
     Inr [(js ''Animals'', 4)]"
  unfolding adobeStockCategoryCount_def adobeStock_words_cat_dog adobeStockMatches_def
  by (simp add: countWord_def getProperty_literal adobeStock_rows not_prototype_keys)

lemma shutterstock_hits_cat:
  "shutterstockHits asciiToLowerCase (js ''cat'') [] = [js ''Animals/Wildlife'']"
  unfolding shutterstockHits_def shutterstock_words_cat shutterstockMatches_def
  by (simp add: tableHits_def ownProperty_objectLiteral shutterstock_rows)

lemma adobeStock_hits_cat:
  "adobeStockHits asciiToLowerCase (js ''cat'') [] = [js ''Animals'']"
  unfolding adobeStockHits_def adobeStock_words_cat adobeStockMatches_def
  by (simp add: tableHits_def ownProperty_objectLiteral adobeStock_rows)

lemma shutterstock_count_cat:
  "shutterstockCategoryCount asciiToLowerCase (js ''cat'') [] = Inr [(js ''Animals/Wildlife'', 1)]"
  unfolding shutterstockCategoryCount_def shutterstock_words_cat shutterstockMatches_def
  by (simp add: countWord_def getProperty_literal shutterstock_rows not_prototype_keys)

subsection \<open>The categories of the tables\<close>

lemma rowsWithin_weak_cong:
  "allowed = allowed' \<Longrightarrow> rowsWithin allowed rows = rowsWithin allowed' rows"
  by simp

lemma rowsWithin_own:
  "rowsWithin allowed rows \<Longrightarrow> ownProperty rows w = Some cs \<Longrightarrow> set cs \<subseteq> set allowed"
  by (induction rows arbitrary: cs)
     (auto simp: list_all_iff split: if_splits option.splits)

lemma adobeStock_rows_within:
  "rowsWithin
     [''Animals'', ''Buildings and Architecture'', ''Business'', ''Drinks'',
      ''The Environment'', ''States of Mind'', ''Food'', ''Graphic Resources'',
      ''Hobbies and Leisure'', ''Industry'', ''Landscapes'', ''Lifestyle'', ''People'',
      ''Plants and Flowers'', ''Culture and Religion'', ''Science'', ''Social Issues'',
      ''Sports'', ''Technology'', ''Transport'', ''Travel'']
     adobeStockMatchesLiteral"
  unfolding adobeStockMatchesLiteral_def by (simp cong: rowsWithin_weak_cong)

lemma shutterstock_rows_within:
  "rowsWithin
     [''Abstract'', ''Animals/Wildlife'', ''Arts'', ''Backgrounds/Textures'',
      ''Beauty/Fashion'', ''Buildings/Landmarks'', ''Business/Finance'',
      ''Celebrities'', ''Education'', ''Food and drink'', ''Healthcare/Medical'',
      ''Holidays'', ''Industrial'', ''Interiors'', ''Miscellaneous'', ''Nature'',
      ''Objects'', ''Parks/Outdoor'', ''People'', ''Religion'', ''Science'',
      ''Signs/Symbols'', ''Sports/Recreation'', ''Technology'', ''Transportation'',
      ''Vintage'']
     shutterstockMatchesLiteral"
  unfolding shutterstockMatchesLiteral_def by (simp cong: rowsWithin_weak_cong)

lemma rowsWithin_literal:
  "rowsWithin allowed rows \<Longrightarrow> ownProperty (objectLiteral rows) w = Some cs \<Longrightarrow>
   set cs \<subseteq> set (map js allowed)"
proof (induction rows arbitrary: cs)
  case Nil
  then show ?case by (simp add: objectLiteral_def)
next
  case (Cons row rows)
  obtain k vs where row: "row = (k, vs)" by (cases row)
  from Cons.prems(1) row have vs: "set vs \<subseteq> set allowed" and rest: "rowsWithin allowed rows"
    by (auto simp: list_all_iff split: if_splits)
  show ?case
  proof (cases "ownProperty (objectLiteral rows) w")
    case None
    with Cons.prems(2) row have "cs = map js vs"
      by (auto simp: objectLiteral_def split: if_splits)
    with vs show ?thesis by auto
  next
    case (Some later)
    with Cons.prems(2) row have "cs = later" by (simp add: objectLiteral_def)
    with Cons.IH [OF rest] Some show ?thesis by simp
  qed
qed

lemma hits_within:
  assumes "rowsWithin allowed rows"
  shows "set (tableHits (objectLiteral rows) ws) \<subseteq> set (map js allowed)"
proof
  fix c assume "c \<in> set (tableHits (objectLiteral rows) ws)"
  then obtain w where "w \<in> set ws"
    and "c \<in> set (case ownProperty (objectLiteral rows) w of Some cats \<Rightarrow> cats | None \<Rightarrow> [])"
    unfolding tableHits_def by auto
  then obtain cs where own: "ownProperty (objectLiteral rows) w = Some cs" and c: "c \<in> set cs"
    by (cases "ownProperty (objectLiteral rows) w") auto
  from rowsWithin_literal [OF assms own] c show "c \<in> set (map js allowed)" by blast
qed

lemma adobeStock_hits_within:
  "set (adobeStockHits lc t ks) \<subseteq> set adobeStockCategories"
  unfolding adobeStockHits_def adobeStockMatches_def adobeStockCategories_def
  by (rule hits_within [OF adobeStock_rows_within])

lemma shutterstock_hits_within:
  "set (shutterstockHits lc t d) \<subseteq> set shutterstockCategories"
  unfolding shutterstockHits_def shutterstockMatches_def shutterstockCategories_def
  by (rule hits_within [OF shutterstock_rows_within])

lemma fallbacks_within:
  "js ''Animals'' \<in> set adobeStockCategories"
  "js ''Miscellaneous'' \<in> set shutterstockCategories"
  "js ''Objects'' \<in> set shutterstockCategories"
  unfolding adobeStockCategories_def shutterstockCategories_def js_mem_iff by simp_all

lemma adobeStock_within:
  assumes "set (adobeStockWords lc t ks) \<inter> set objectPrototypeKeys = {}"
  shows "\<exists>c \<in> set adobeStockCategories. suggestCategoriesForAdobeStock lc t ks = Inr [c]"
proof -
  from adobeStock_top [OF assms] obtain res
    where r: "suggestCategoriesForAdobeStock lc t ks = Inr res"
      and t: "specTopOne (adobeStockHits lc t ks) [js ''Animals''] res" by blast
  show ?thesis
  proof (cases "adobeStockHits lc t ks = []")
    case True
    with t r fallbacks_within(1) show ?thesis by (simp add: specTopOne_def)
  next
    case False
    with t obtain c where "c \<in> set (adobeStockHits lc t ks)" and "res = [c]"
      by (auto simp: specTopOne_def)
    with r adobeStock_hits_within [of lc t ks] show ?thesis by auto
  qed
qed

lemma shutterstock_within:
  assumes "set (shutterstockWords lc t d) \<inter> set objectPrototypeKeys = {}"
  shows "\<exists>c1 \<in> set shutterstockCategories. \<exists>c2 \<in> set shutterstockCategories.
           suggestCategoriesForShutterstock lc t d = Inr [c1, c2]"
proof -
  let ?hs = "shutterstockHits lc t d"
  from shutterstock_top [OF assms] obtain res
    where r: "suggestCategoriesForShutterstock lc t d = Inr res"
      and t: "specTopTwo ?hs [js ''Miscellaneous'', js ''Objects''] res" by blast
  have sub: "set ?hs \<subseteq> set shutterstockCategories" by (rule shutterstock_hits_within)
  consider (none) "?hs = []" | (one) "?hs \<noteq> []" "card (set ?hs) = 1"
    | (more) "?hs \<noteq> []" "card (set ?hs) \<noteq> 1" by blast
  then show ?thesis
  proof cases
    case none
    with t r fallbacks_within show ?thesis by (simp add: specTopTwo_def)
  next
    case one
    then have "hd ?hs \<in> set ?hs" by simp
    with sub have "hd ?hs \<in> set shutterstockCategories" by blast
    with one t r fallbacks_within show ?thesis by (simp add: specTopTwo_def)
  next
    case more
    with t obtain c1 c2 where "c1 \<in> set ?hs" "c2 \<in> set ?hs" "res = [c1, c2]"
      by (auto simp: specTopTwo_def)
    with sub r show ?thesis by blast
  qed
qed

subsection \<open>The claims\<close>

text \<open>
  Claim C3, as the code has it: for the title \<^verbatim>\<open>A cat and a dog\<close> and the keywords
  \<^verbatim>\<open>cat\<close>, \<^verbatim>\<open>dog\<close>, \<open>suggestCategoriesForAdobeStock\<close> returns exactly
  \<^verbatim>\<open>["Animals"]\<close>, and the count accumulated for \<^verbatim>\<open>Animals\<close> is 4: the title
  and the keyword list are joined before the words are counted, so \<^verbatim>\<open>cat\<close> and
  \<^verbatim>\<open>dog\<close> are counted twice each.
\<close>

theorem adobeStock_cat_dog:
  "suggestCategoriesForAdobeStock asciiToLowerCase (js ''A cat and a dog'') [js ''cat'', js ''dog'']
     = Inr [js ''Animals''] \<and>
   adobeStockCategoryCount asciiToLowerCase (js ''A cat and a dog'') [js ''cat'', js ''dog'']
     = Inr [(js ''Animals'', 4)]"
  by (simp add: suggestCategoriesForAdobeStock_def adobeStock_count_cat_dog sortedCategories_def)

text \<open>
  Claim C3 as stated fails: on that input no dictionary of counts with 2 for
  \<^verbatim>\<open>Animals\<close> is what the function accumulates.
\<close>

theorem adobeStock_cat_dog_count_counterexample:
  "\<not> (suggestCategoriesForAdobeStock asciiToLowerCase (js ''A cat and a dog'')
          [js ''cat'', js ''dog''] = Inr [js ''Animals''] \<and>
       (\<exists>cc. adobeStockCategoryCount asciiToLowerCase (js ''A cat and a dog'')
                [js ''cat'', js ''dog''] = Inr cc \<and>
             map_of cc (js ''Animals'') = Some 2))"
  by (simp add: adobeStock_count_cat_dog)

text \<open>
  Claim C4, as the code has it. Whenever no word of the combined lowercased text names a
  property of \<^verbatim>\<open>Object.prototype\<close>, each matcher returns, and
  \<^item> the counts it accumulates are, for each category hit by a word of the text, the
    number of its hits (\<open>specCounts\<close>);
  \<^item> \<open>suggestCategoriesForAdobeStock\<close> returns the one category with the most hits, and
    \<^verbatim>\<open>["Animals"]\<close> when no word hits the table (\<open>specTopOne\<close>);
  \<^item> \<open>suggestCategoriesForShutterstock\<close> returns the two categories with the most
    hits when two or more were hit, the one category hit followed by
    \<^verbatim>\<open>Miscellaneous\<close> when exactly one was hit, and
    \<^verbatim>\<open>["Miscellaneous", "Objects"]\<close> when no word hits the table (\<open>specTopTwo\<close>).
  The words are the pieces of the text between runs of whitespace (\<open>adobeStockWords\<close>,
  \<open>shutterstockWords\<close>), for any lowercasing function \<open>lc\<close>.
\<close>

theorem suggestCategories_top_matched:
  "(set (adobeStockWords lc t ks) \<inter> set objectPrototypeKeys = {} \<longrightarrow>
      (\<exists>cc res.
         adobeStockCategoryCount lc t ks = Inr cc \<and>
         specCounts (adobeStockHits lc t ks) cc \<and>
         suggestCategoriesForAdobeStock lc t ks = Inr res \<and>
         specTopOne (adobeStockHits lc t ks) [js ''Animals''] res)) \<and>
   (set (shutterstockWords lc t d) \<inter> set objectPrototypeKeys = {} \<longrightarrow>
      (\<exists>cc res.
         shutterstockCategoryCount lc t d = Inr cc \<and>
         specCounts (shutterstockHits lc t d) cc \<and>
         suggestCategoriesForShutterstock lc t d = Inr res \<and>
         specTopTwo (shutterstockHits lc t d) [js ''Miscellaneous'', js ''Objects''] res))"
proof (intro conjI impI)
  assume "set (adobeStockWords lc t ks) \<inter> set objectPrototypeKeys = {}"
  then show "\<exists>cc res.
         adobeStockCategoryCount lc t ks = Inr cc \<and>
         specCounts (adobeStockHits lc t ks) cc \<and>
         suggestCategoriesForAdobeStock lc t ks = Inr res \<and>
         specTopOne (adobeStockHits lc t ks) [js ''Animals''] res"
    by (rule adobeStock_top)
next
  assume "set (shutterstockWords lc t d) \<inter> set objectPrototypeKeys = {}"
  then show "\<exists>cc res.
         shutterstockCategoryCount lc t d = Inr cc \<and>
         specCounts (shutterstockHits lc t d) cc \<and>
         suggestCategoriesForShutterstock lc t d = Inr res \<and>
         specTopTwo (shutterstockHits lc t d) [js ''Miscellaneous'', js ''Objects''] res"
    by (rule shutterstock_top)
qed

text \<open>
  A witness for C4: the title \<^verbatim>\<open>cat\<close> with no keywords and an empty description.
  Its words are \<^verbatim>\<open>cat\<close> and the empty piece after the joining space; neither names
  a property of \<^verbatim>\<open>Object.prototype\<close>.
\<close>

theorem suggestCategories_top_matched_witness:
  "set (adobeStockWords asciiToLowerCase (js ''cat'') []) \<inter> set objectPrototypeKeys = {} \<and>
   set (shutterstockWords asciiToLowerCase (js ''cat'') []) \<inter> set objectPrototypeKeys = {} \<and>
   (\<exists>cc res.
      adobeStockCategoryCount asciiToLowerCase (js ''cat'') [] = Inr cc \<and>
      specCounts [js ''Animals''] cc \<and>
      suggestCategoriesForAdobeStock asciiToLowerCase (js ''cat'') [] = Inr res \<and>
      specTopOne [js ''Animals''] [js ''Animals''] res) \<and>
   (\<exists>cc res.
      shutterstockCategoryCount asciiToLowerCase (js ''cat'') [] = Inr cc \<and>
      specCounts [js ''Animals/Wildlife''] cc \<and>
      suggestCategoriesForShutterstock asciiToLowerCase (js ''cat'') [] = Inr res \<and>
      specTopTwo [js ''Animals/Wildlife''] [js ''Miscellaneous'', js ''Objects''] res)"
proof -
  have a: "set (adobeStockWords asciiToLowerCase (js ''cat'') []) \<inter> set objectPrototypeKeys = {}"
    unfolding adobeStock_words_cat using not_prototype_keys by simp
  have s: "set (shutterstockWords asciiToLowerCase (js ''cat'') []) \<inter> set objectPrototypeKeys = {}"
    unfolding shutterstock_words_cat using not_prototype_keys by simp
  from suggestCategories_top_matched [of asciiToLowerCase "js ''cat''" "[]" "[]"] a s
  show ?thesis unfolding adobeStock_hits_cat shutterstock_hits_cat by blast
qed

text \<open>
  Claim C4 as stated fails: for the title \<^verbatim>\<open>cat\<close> and an empty description a word
  hits the table, yet \<open>suggestCategoriesForShutterstock\<close> returns neither matched
  categories only nor the default list: its second entry, \<^verbatim>\<open>Miscellaneous\<close>, was not
  hit by any word.
\<close>

theorem shutterstock_padding_counterexample:
  "shutterstockHits asciiToLowerCase (js ''cat'') [] = [js ''Animals/Wildlife''] \<and>
   suggestCategoriesForShutterstock asciiToLowerCase (js ''cat'') []
     = Inr [js ''Animals/Wildlife'', js ''Miscellaneous''] \<and>
   js ''Miscellaneous'' \<notin> set (shutterstockHits asciiToLowerCase (js ''cat'') []) \<and>
   [js ''Animals/Wildlife'', js ''Miscellaneous''] \<noteq> [js ''Miscellaneous'', js ''Objects'']"
  by (simp add: shutterstock_hits_cat suggestCategoriesForShutterstock_def
      shutterstock_count_cat sortedCategories_def js_eq_iff)

text \<open>
  Claim C10 at its failing input: the title \<^verbatim>\<open>Constructor at work\<close>. The first word
  of the lowercased text is \<^verbatim>\<open>constructor\<close>, which is no key of either table but
  is found on \<^verbatim>\<open>Object.prototype\<close>; both matchers throw a TypeError and return no
  list at all.
\<close>

theorem suggestCategories_constructor_throws:
  "suggestCategoriesForShutterstock asciiToLowerCase (js ''Constructor at work'') [] = Inl TypeError \<and>
   suggestCategoriesForAdobeStock asciiToLowerCase (js ''Constructor at work'') [] = Inl TypeError"
  unfolding suggestCategoriesForShutterstock_def suggestCategoriesForAdobeStock_def
    shutterstockCategoryCount_def adobeStockCategoryCount_def
    shutterstock_words_constructor adobeStock_words_constructor
    shutterstockMatches_def adobeStockMatches_def
  by (simp add: countWord_def getProperty_literal adobeStock_rows shutterstock_rows
      constructor_prototype_key)

text \<open>
  Beside C10: on every input none of whose words names a property of
  \<^verbatim>\<open>Object.prototype\<close>, \<open>suggestCategoriesForAdobeStock\<close> returns exactly one
  category and \<open>suggestCategoriesForShutterstock\<close> exactly two, each a member of the
  platform's list of categories.
\<close>

theorem suggestCategories_within_taxonomy:
  "(set (adobeStockWords lc t ks) \<inter> set objectPrototypeKeys = {} \<longrightarrow>
      (\<exists>c \<in> set adobeStockCategories. suggestCategoriesForAdobeStock lc t ks = Inr [c])) \<and>
   (set (shutterstockWords lc t d) \<inter> set objectPrototypeKeys = {} \<longrightarrow>
      (\<exists>c1 \<in> set shutterstockCategories. \<exists>c2 \<in> set shutterstockCategories.
         suggestCategoriesForShutterstock lc t d = Inr [c1, c2]))"
  using adobeStock_within shutterstock_within by blast

text \<open>
  A witness: the title \<^verbatim>\<open>cat\<close> again, for both platforms.
\<close>

theorem suggestCategories_within_taxonomy_witness:
  "set (adobeStockWords asciiToLowerCase (js ''cat'') []) \<inter> set objectPrototypeKeys = {} \<and>
   set (shutterstockWords asciiToLowerCase (js ''cat'') []) \<inter> set objectPrototypeKeys = {} \<and>
   (\<exists>c \<in> set adobeStockCategories.
      suggestCategoriesForAdobeStock asciiToLowerCase (js ''cat'') [] = Inr [c]) \<and>
   (\<exists>c1 \<in> set shutterstockCategories. \<exists>c2 \<in> set shutterstockCategories.
      suggestCategoriesForShutterstock asciiToLowerCase (js ''cat'') [] = Inr [c1, c2])"
proof -
  have a: "set (adobeStockWords asciiToLowerCase (js ''cat'') []) \<inter> set objectPrototypeKeys = {}"
    unfolding adobeStock_words_cat using not_prototype_keys by simp
  have s: "set (shutterstockWords asciiToLowerCase (js ''cat'') []) \<inter> set objectPrototypeKeys = {}"
    unfolding shutterstock_words_cat using not_prototype_keys by simp
  from suggestCategories_within_taxonomy [of asciiToLowerCase "js ''cat''" "[]" "[]"] a s
  show ?thesis by blast
qed

section \<open>Properties of the CSV formatter\<close>

lemma csvRows_none:
  "\<forall>img \<in> set imgs. status img \<noteq> Complete \<Longrightarrow> csvRows f s a imgs = []"
  by (induction imgs) (auto split: option.splits)

lemma csvRows_filter:
  "csvRows f s a imgs = csvRows f s a (filter (\<lambda>i. status i = Complete) imgs)"
  by (induction imgs) (auto split: option.splits)

lemma header_default:
  "join (js '','') (csvHeaders False False False) = js ''\"Filename\",\"Title\",\"Description\",\"Keywords\"''"
  by (simp add: csvHeaders_def quoted_def js_def)
lemma header_freepik:
  "join (js '';'') (csvHeaders True s a) = js ''\"File name\";\"Title\";\"Keywords\";\"Prompt\";\"Base-Model\"''"
  by (simp add: csvHeaders_def quoted_def js_def)
lemma header_shutterstock:
  "join (js '','') (csvHeaders False True a) = js ''\"Filename\",\"Description\",\"Keywords\",\"Categories\"''"
  by (simp add: csvHeaders_def quoted_def js_def)
lemma header_adobe:
  "join (js '','') (csvHeaders False False True) = js ''\"Filename\",\"Title\",\"Keywords\",\"Category\"''"
  by (simp add: csvHeaders_def quoted_def js_def)

text \<open>
  Claim C6: for the empty image list, and for any list with no image of status
  \<^verbatim>\<open>complete\<close>, \<open>formatImagesAsCSV\<close> returns the header row of the selected
  platform and nothing else: no newline, no data row.
\<close>

theorem formatImagesAsCSV_header_only:
  assumes "\<forall>img \<in> set imgs. status img \<noteq> Complete"
  shows "formatImagesAsCSV imgs isFreepikOnly isShutterstock isAdobeStock =
           (if isFreepikOnly then js ''\"File name\";\"Title\";\"Keywords\";\"Prompt\";\"Base-Model\"''
            else if isShutterstock then js ''\"Filename\",\"Description\",\"Keywords\",\"Categories\"''
            else if isAdobeStock then js ''\"Filename\",\"Title\",\"Keywords\",\"Category\"''
            else js ''\"Filename\",\"Title\",\"Description\",\"Keywords\"'')"
  using csvRows_none [OF assms]
  by (simp add: formatImagesAsCSV_def header_default header_freepik header_shutterstock header_adobe)

text \<open>
  A witness for C6: a list of one pending image, default platform.
\<close>

theorem formatImagesAsCSV_header_only_witness:
  "status examplePending \<noteq> Complete \<and>
   formatImagesAsCSV [examplePending] False False False =
     js ''\"Filename\",\"Title\",\"Description\",\"Keywords\"''"
proof -
  have p: "\<forall>img \<in> set [examplePending]. status img \<noteq> Complete"
    by (simp add: examplePending_def)
  from formatImagesAsCSV_header_only [OF p, of False False False] p
  show ?thesis by simp
qed

text \<open>
  Claim C5, as the code has it: for a list with exactly one image of status
  \<^verbatim>\<open>complete\<close>, whose result has an empty description and whose file is not a video
  (its MIME type does not start with \<^verbatim>\<open>video/\<close>), \<open>formatImagesAsCSV\<close> with the
  default platform returns the header, a newline, and one row of four fields in double
  quotes: the file name, the title stripped of symbols, an empty description, and the
  keywords joined by a comma and a space.
\<close>

theorem formatImagesAsCSV_single_image:
  assumes "filter (\<lambda>i. status i = Complete) imgs = [img]"
      and "result img = Some r"
      and "description r = []"
      and "\<not> startsWith (file_type (image_file img)) (js ''video/'')"
  shows "formatImagesAsCSV imgs False False False =
           js ''\"Filename\",\"Title\",\"Description\",\"Keywords\"'' @ [0x0A] @
           quoted (file_name (image_file img)) @ js '','' @
           quoted (removeSymbolsFromTitle (title r)) @ js '','' @
           quoted [] @ js '','' @
           quoted (join (js '', '') (keywordList r))"
proof -
  from assms(1) have c: "status img = Complete"
  proof -
    have "img \<in> set (filter (\<lambda>i. status i = Complete) imgs)" unfolding assms(1) by simp
    then show ?thesis by simp
  qed
  have t: "(if title r \<noteq> [] then removeSymbolsFromTitle (title r) else []) = removeSymbolsFromTitle (title r)"
    by (simp add: removeSymbolsFromTitle_filter)
  have "csvRows False False False imgs = csvRows False False False [img]"
    using csvRows_filter [of False False False imgs] assms(1) by simp
  also have "\<dots> = [csvRow False False False img r]"
    using assms(2) c by simp
  finally have rows: "csvRows False False False imgs = [csvRow False False False img r]" .
  show ?thesis
    unfolding formatImagesAsCSV_def rows
    by (simp add: header_default csvRow_def Let_def assms(3,4) t)
qed

text \<open>
  A witness for C5: a pending image and a completed PNG image titled
  \<^verbatim>\<open>Sunset & sea\<close>, with the keywords \<^verbatim>\<open>sunset\<close> and \<^verbatim>\<open>sea\<close>.
\<close>

theorem formatImagesAsCSV_single_image_witness:
  "filter (\<lambda>i. status i = Complete) [examplePending, exampleComplete] = [exampleComplete] \<and>
   result exampleComplete = Some exampleMetadata \<and>
   description exampleMetadata = [] \<and>
   \<not> startsWith (file_type (image_file exampleComplete)) (js ''video/'') \<and>
   formatImagesAsCSV [examplePending, exampleComplete] False False False =
     js ''\"Filename\",\"Title\",\"Description\",\"Keywords\"'' @ [0x0A] @
     js ''\"sunset.png\",\"Sunset  sea\",\"\",\"sunset, sea\"''"
proof -
  have 1: "filter (\<lambda>i. status i = Complete) [examplePending, exampleComplete] = [exampleComplete]"
    by (simp add: examplePending_def exampleComplete_def)
  have 2: "result exampleComplete = Some exampleMetadata" by (simp add: exampleComplete_def)
  have 3: "description exampleMetadata = []" by (simp add: exampleMetadata_def)
  have 4: "\<not> startsWith (file_type (image_file exampleComplete)) (js ''video/'')"
    by (simp add: exampleComplete_def examplePending_def startsWith_def js_def)
  have 5: "removeSymbolsFromTitle (title exampleMetadata) = js ''Sunset  sea''"
    by (simp add: exampleMetadata_def removeSymbolsFromTitle_filter titleClass_def regex_w_def
        regex_s_def js_def)
  have 6: "quoted (file_name (image_file exampleComplete)) @ js '','' @
           quoted (removeSymbolsFromTitle (title exampleMetadata)) @ js '','' @
           quoted [] @ js '','' @
           quoted (join (js '', '') (keywordList exampleMetadata)) =
           js ''\"sunset.png\",\"Sunset  sea\",\"\",\"sunset, sea\"''"
    unfolding 5
    by (simp add: exampleComplete_def examplePending_def exampleMetadata_def quoted_def js_def)
  from formatImagesAsCSV_single_image [OF 1 2 3 4] 1 2 3 4
  show ?thesis unfolding 6 by blast
qed

text \<open>
  Claim C5 as stated fails for a completed video file: the row of a video holds the file
  name, the title, the keywords joined by a comma alone, and the index of its category,
  whatever the platform. The same completed entry as above, its file an MP4 clip:
\<close>

theorem formatImagesAsCSV_video_counterexample:
  "filter (\<lambda>i. status i = Complete) [exampleVideo] = [exampleVideo] \<and>
   result exampleVideo = Some exampleMetadata \<and>
   description exampleMetadata = [] \<and>
   formatImagesAsCSV [exampleVideo] False False False =
     js ''\"Filename\",\"Title\",\"Description\",\"Keywords\"'' @ [0x0A] @
     js ''\"sunset.mp4\",\"Sunset  sea\",\"sunset,sea\",\"\"'' \<and>
   formatImagesAsCSV [exampleVideo] False False False \<noteq>
     js ''\"Filename\",\"Title\",\"Description\",\"Keywords\"'' @ [0x0A] @
     quoted (file_name (image_file exampleVideo)) @ js '','' @
     quoted (removeSymbolsFromTitle (title exampleMetadata)) @ js '','' @
     quoted [] @ js '','' @
     quoted (join (js '', '') (keywordList exampleMetadata))"
proof -
  have 5: "removeSymbolsFromTitle (title exampleMetadata) = js ''Sunset  sea''"
    by (simp add: exampleMetadata_def removeSymbolsFromTitle_filter titleClass_def regex_w_def
        regex_s_def js_def)
  have 6: "title exampleMetadata \<noteq> []" by (simp add: exampleMetadata_def js_def)
  have v: "startsWith (file_type (image_file exampleVideo)) (js ''video/'')"
    by (simp add: exampleVideo_def startsWith_def js_def)
  have r: "csvRows False False False [exampleVideo] = [csvRow False False False exampleVideo exampleMetadata]"
    by (simp add: exampleVideo_def exampleComplete_def examplePending_def)
  have row: "csvRow False False False exampleVideo exampleMetadata = js ''\"sunset.mp4\",\"Sunset  sea\",\"sunset,sea\",\"\"''"
    unfolding csvRow_def Let_def using v 6
    by (simp add: 5) (simp add: exampleVideo_def exampleMetadata_def quoted_def js_def)
  show ?thesis
    unfolding formatImagesAsCSV_def r row 5
    by (simp add: header_default) (simp add: exampleVideo_def exampleComplete_def examplePending_def exampleMetadata_def quoted_def js_def)
qed

section \<open>Properties of the upload validation\<close>

lemma pdf_not_accepted:
  "file_type f = js ''application/pdf'' \<Longrightarrow> \<not> isValidMediaType f"
  unfolding isValidMediaType_def acceptedTypes_def by (simp add: js_eq_iff)

lemma processFile_valid:
  "processFile env i f = (ns, Some img) \<Longrightarrow> image_file img = f \<and> isValidMediaType f"
  by (auto simp: processFile_def split: if_splits option.splits)

lemma processFiles_valid:
  assumes "fst (processFiles env files) = Some imgs"
  shows "\<forall>img \<in> set imgs. isValidMediaType (image_file img)"
proof -
  let ?results = "map (\<lambda>(i, f). processFile env i f) (enumerate 0 files)"
  let ?valid = "concat (map (\<lambda>(ns, r). case r of None \<Rightarrow> [] | Some img \<Rightarrow> [img]) ?results)"
  from assms have "imgs = ?valid"
    by (auto simp: processFiles_def Let_def split: if_splits)
  moreover have "\<forall>img \<in> set ?valid. isValidMediaType (image_file img)"
    by (auto split: option.splits dest: processFile_valid [OF sym])
  ultimately show ?thesis by simp
qed

lemma files_markProcessing: "map image_file (markProcessing imgs) = map image_file imgs"
  by (simp add: markProcessing_def)

lemma files_storeResult: "map image_file (storeResult opts im res prev) = map image_file prev"
  by (simp add: storeResult_def Let_def)

lemma processLoop_files:
  "analyzedFiles (processLoop w key opts i pend cur) = map image_file pend"
  by (induction pend arbitrary: i cur) (simp_all add: Let_def)

lemma analyzedFiles_append: "analyzedFiles (xs @ ys) = analyzedFiles xs @ analyzedFiles ys"
  by (induction xs rule: analyzedFiles.induct) simp_all

lemma analyzedFiles_mem: "Analyze f \<in> set acts \<longleftrightarrow> f \<in> set (analyzedFiles acts)"
  by (induction acts rule: analyzedFiles.induct) auto

lemma finalImages_append:
  "finalImages (xs @ ys) cur = finalImages ys (finalImages xs cur)"
  by (induction xs cur rule: finalImages.induct) simp_all

lemma processLoop_keeps_files:
  "map image_file (finalImages (processLoop w key opts i pend cur) cur) = map image_file cur"
proof (induction pend arbitrary: i cur)
  case Nil
  then show ?case by simp
next
  case (Cons im pend)
  let ?cur' = "storeResult opts im (analyzeImageWithGemini (w i) (image_file im) key opts) cur"
  have "finalImages (processLoop w key opts i (im # pend) cur) cur =
        finalImages (processLoop w key opts (i + 1) pend ?cur') ?cur'"
    by (simp add: Let_def finalImages_append)
  then show ?case using Cons.IH [of "i + 1" ?cur'] by (simp add: files_storeResult)
qed

lemma handleProcessImages_analyzed:
  "set (analyzedFiles (handleProcessImages p canProceed w)) \<subseteq> image_file ` set (images p)"
  by (auto simp: handleProcessImages_def Let_def analyzedFiles_append processLoop_files)

lemma handleProcessImages_keeps_files:
  "map image_file (finalImages (handleProcessImages p canProceed w) (images p)) =
   map image_file (images p)"
proof -
  let ?s0 = "markProcessing (images p)"
  let ?pend = "filter (\<lambda>img. status img = Pending) (images p)"
  have "finalImages ([IncrementCredits, SetIsProcessing True, SetImages ?s0] @
          processLoop w (apiKey p) (options p) 0 ?pend ?s0 @
          [Toast AllImagesProcessed, SetIsProcessing False]) (images p) =
        finalImages (processLoop w (apiKey p) (options p) 0 ?pend ?s0) ?s0"
    by (simp add: finalImages_append)
  then show ?thesis
    by (simp add: handleProcessImages_def Let_def processLoop_keeps_files files_markProcessing)
qed

lemma step_valid: "validApp st \<Longrightarrow> validApp (step st ev)"
proof (cases ev)
  case (FilesChosen env files)
  assume v: "validApp st"
  show ?thesis
  proof (cases "fst (processFiles env files)")
    case None
    with v FilesChosen show ?thesis by simp
  next
    case (Some imgs)
    from processFiles_valid [OF Some] v FilesChosen Some show ?thesis
      by (auto simp: validApp_def handleImagesSelected_def list_all_iff)
  qed
next
  case (RemoveClicked i)
  assume "validApp st"
  with RemoveClicked show ?thesis
    by (auto simp: validApp_def handleRemoveImage_def list_all_iff)
next
  case ClearAllClicked
  assume "validApp st"
  with ClearAllClicked show ?thesis by (simp add: validApp_def handleClearAll_def)
next
  case (ProcessClicked key canGenerate opts canProceed w)
  assume v: "validApp st"
  let ?p = "\<lparr>apiKey = key, images = app_images st, canGenerateMetadata = canGenerate, options = opts\<rparr>"
  let ?acts = "handleProcessImages ?p canProceed w"
  have f: "map image_file (finalImages ?acts (app_images st)) = map image_file (app_images st)"
    using handleProcessImages_keeps_files [of ?p canProceed w] by simp
  have a: "set (analyzedFiles ?acts) \<subseteq> image_file ` set (app_images st)"
    using handleProcessImages_analyzed [of ?p canProceed w] by simp
  from v have imgs: "\<forall>x \<in> set (map image_file (app_images st)). isValidMediaType x"
    by (simp add: validApp_def list_all_iff)
  then have "\<forall>x \<in> set (map image_file (finalImages ?acts (app_images st))). isValidMediaType x"
    unfolding f .
  moreover from imgs a have "\<forall>x \<in> set (analyzedFiles ?acts). isValidMediaType x" by auto
  ultimately show ?thesis using v ProcessClicked
    by (auto simp: validApp_def list_all_iff Let_def analyzedFiles_append)
qed

lemma run_valid: "validApp st \<Longrightarrow> validApp (run st evs)"
  unfolding run_def by (induction evs arbitrary: st) (simp_all add: step_valid)

lemma initial_valid: "validApp initialApp"
  by (simp add: validApp_def initialApp_def)

text \<open>
  Claim C7: a file of MIME type \<^verbatim>\<open>application/pdf\<close> is rejected by
  \<open>isValidMediaType\<close>; whatever files are uploaded with it, it is not the file of any
  image that \<open>processFiles\<close> hands to the page; and whatever the user then does
  (uploads, removals, clearing, processing runs), no run ever calls the AI client for it.
\<close>

theorem pdf_never_analyzed:
  assumes "file_type f = js ''application/pdf''"
  shows "\<not> isValidMediaType f \<and>
         (\<forall>env files imgs. fst (processFiles env files) = Some imgs \<longrightarrow> f \<notin> image_file ` set imgs) \<and>
         (\<forall>evs. Analyze f \<notin> set (app_log (run initialApp evs)))"
proof (intro conjI allI impI)
  show n: "\<not> isValidMediaType f" by (rule pdf_not_accepted [OF assms])
  show "f \<notin> image_file ` set imgs" if "fst (processFiles env files) = Some imgs" for env files imgs
    using processFiles_valid [OF that] n by auto
  show "Analyze f \<notin> set (app_log (run initialApp evs))" for evs
  proof -
    from run_valid [OF initial_valid, of evs]
    have "\<forall>x \<in> set (analyzedFiles (app_log (run initialApp evs))). isValidMediaType x"
      by (simp add: validApp_def list_all_iff)
    with n show ?thesis by (auto simp: analyzedFiles_mem)
  qed
qed

text \<open>
  A witness for C7: a PDF and a PNG are dropped on the page together and the user starts
  a processing run. Only the PNG becomes an image; the PDF is never analysed.
\<close>

theorem pdf_never_analyzed_witness:
  "file_type examplePdf = js ''application/pdf'' \<and>
   \<not> isValidMediaType examplePdf \<and>
   fst (processFiles exampleUploadEnv [examplePdf, examplePng]) =
     Some [\<lparr>image_id = js ''1'', image_file = examplePng,
            previewUrl = js ''data:image/png;base64,AAAA'', status = Pending,
            result = None, error = None\<rparr>] \<and>
   examplePdf \<notin> image_file `
     set [\<lparr>image_id = js ''1'', image_file = examplePng,
            previewUrl = js ''data:image/png;base64,AAAA'', status = Pending,
            result = None, error = None\<rparr>] \<and>
   Analyze examplePdf \<notin> set (app_log (run initialApp
     [FilesChosen exampleUploadEnv [examplePdf, examplePng],
      ProcessClicked (js ''key'') True exampleOptions True (\<lambda>i. quotaWorld)]))"
proof -
  have t: "file_type examplePdf = js ''application/pdf''" by (simp add: examplePdf_def)
  have png: "isValidMediaType examplePng"
    by (simp add: isValidMediaType_def acceptedTypes_def examplePng_def)
  have size: "isValidFileSize examplePng" by (simp add: isValidFileSize_def examplePng_def)
  have one: "numberToString 1 = js ''1''" by (simp add: js_def)
  have f: "fst (processFiles exampleUploadEnv [examplePdf, examplePng]) =
     Some [\<lparr>image_id = js ''1'', image_file = examplePng,
            previewUrl = js ''data:image/png;base64,AAAA'', status = Pending,
            result = None, error = None\<rparr>]"
    using pdf_not_accepted [OF t] png size
    by (simp add: processFiles_def processFile_def Let_def exampleUploadEnv_def enumerate_eq_zip one)
       (simp add: js_def)
  from pdf_never_analyzed [OF t] t f show ?thesis by blast
qed

section \<open>Properties of the AI client and the orchestrator\<close>

subsection \<open>Failed calls\<close>


lemma outcome_error_only:
  "outcome \<lparr>title = [], description = [], keywordList = [], prompt = None, baseModel = None,
            categories = None, analysis_error = Some m\<rparr> = (if m = [] then Complete else Error)"
  by (simp add: outcome_def hasError_def)


lemma quotaWorld_result:
  "analyzeImageWithGemini quotaWorld f key opts =
     \<lparr>title = [], description = [], keywordList = [], prompt = None, baseModel = None,
      categories = None, analysis_error = Some (js ''Quota exceeded'')\<rparr>"
proof -
  have t: "truthy (JString (js ''Quota exceeded''))" by (simp add: js_def)
  show ?thesis
    using t by (simp add: analyzeImageWithGemini_def analyzeBody_def errorResult_def quotaWorld_def)
qed

lemma quotaWorld_outcome: "outcome (analyzeImageWithGemini quotaWorld f key opts) = Error"
  unfolding quotaWorld_result outcome_error_only by (simp add: js_def)



subsection \<open>Statuses along a run\<close>

lemma ids_markProcessing: "map image_id (markProcessing imgs) = map image_id imgs"
  by (simp add: markProcessing_def)

lemma ids_storeResult: "map image_id (storeResult opts im res prev) = map image_id prev"
  by (simp add: storeResult_def Let_def)

lemma statusOf_markProcessing:
  "statusOf x (markProcessing imgs) =
     map (\<lambda>s. if s = Pending then Processing else s) (statusOf x imgs)"
  by (induction imgs) (simp_all add: statusOf_def markProcessing_def)

lemma statusOf_map:
  assumes "\<And>img. image_id (g img) = image_id img"
  shows "statusOf x (map g imgs) = map (status \<circ> g) (filter (\<lambda>img. image_id img = x) imgs)"
  by (induction imgs) (simp_all add: statusOf_def assms)

lemma statusOf_storeResult:
  "statusOf x (storeResult opts im res prev) =
     (if x = image_id im then map (\<lambda>s. outcome res) (statusOf x prev) else statusOf x prev)"
proof -
  let ?g = "\<lambda>img. if image_id img = image_id im then
              img\<lparr>status := (if hasError res then Error else Complete),
                  result := (if hasError res then None
                             else Some \<lparr>title = title res,
                                       description = description res,
                                       keywordList = keywordList res,
                                       prompt = (if platforms opts = [Freepik] then prompt res else None),
                                       baseModel = (if platforms opts = [Freepik] then baseModel res else None),
                                       categories = (if platforms opts = [Shutterstock] then categories res else None)\<rparr>),
                  error := analysis_error res\<rparr>
            else img"
  have s: "storeResult opts im res prev = map ?g prev" by (simp add: storeResult_def Let_def)
  have i: "\<And>img. image_id (?g img) = image_id img" by simp
  have "statusOf x (map ?g prev) = map (status \<circ> ?g) (filter (\<lambda>img. image_id img = x) prev)"
    by (rule statusOf_map [OF i])
  also have "\<dots> = (if x = image_id im then map (\<lambda>s. outcome res) (statusOf x prev) else statusOf x prev)"
    by (auto simp: statusOf_def outcome_def)
  finally show ?thesis unfolding s .
qed

lemma statusOf_distinct:
  assumes "distinct (map image_id imgs)" and "x \<in> set imgs"
  shows "statusOf (image_id x) imgs = [status x]"
  using assms
proof (induction imgs)
  case Nil
  then show ?case by simp
next
  case (Cons y ys)
  show ?case
  proof (cases "x = y")
    case True
    from Cons.prems(1) have "\<forall>z \<in> set ys. image_id z \<noteq> image_id y"
      by simp (metis imageI)
    then have "filter (\<lambda>img. image_id img = image_id y) ys = []" by (simp add: filter_empty_conv)
    with True show ?thesis by (simp add: statusOf_def)
  next
    case False
    with Cons.prems have x: "x \<in> set ys" and d: "distinct (map image_id ys)" by auto
    from Cons.prems(1) x have "image_id y \<noteq> image_id x"
      by simp (metis imageI)
    with Cons.IH [OF d x] show ?thesis by (simp add: statusOf_def)
  qed
qed




lemma delays_append: "delays (xs @ ys) = delays xs @ delays ys"
  by (induction xs rule: delays.induct) simp_all

lemma snapshots_append: "snapshots (xs @ ys) = snapshots xs @ snapshots ys"
  by (induction xs rule: snapshots.induct) simp_all

lemma processLoop_delays:
  "delays (processLoop w key opts i pend cur) =
     replicate (length pend - (if i = 0 then 1 else 0)) 2000"
proof (induction pend arbitrary: i cur)
  case Nil
  then show ?case by simp
next
  case (Cons im pend)
  show ?case
    using Cons.IH [of "i + 1"]
    by (cases pend) (simp_all add: Let_def delays_append)
qed





subsection \<open>The claims\<close>



lemma examplePage_pending:
  "filter (\<lambda>img. status img = Pending) (images examplePage) = [image1, image2, image3]"
  by (simp add: examplePage_def image1_def image2_def image3_def examplePending_def)

lemma examplePage_distinct: "distinct (map image_id (images examplePage))"
  by (simp add: examplePage_def image1_def image2_def image3_def js_eq_iff)

lemma examplePage_guards: "apiKey examplePage \<noteq> []" "canGenerateMetadata examplePage"
  by (simp_all add: examplePage_def js_def)




lemma pending_members:
  assumes "distinct (map image_id imgs)" and "filter P imgs = [a, b, c]"
  shows "a \<in> set imgs \<and> b \<in> set imgs \<and> c \<in> set imgs \<and> P a \<and> P b \<and> P c \<and>
         image_id a \<noteq> image_id b \<and> image_id a \<noteq> image_id c \<and> image_id b \<noteq> image_id c"
proof -
  have s: "set [a, b, c] = {x \<in> set imgs. P x}" unfolding assms(2) [symmetric] by simp
  have "distinct (map image_id (filter P imgs))" by (rule distinct_map_filter [OF assms(1)])
  then have "distinct (map image_id [a, b, c])" unfolding assms(2) .
  with s show ?thesis by auto
qed

text \<open>
  Claim C1, as the code has it. A run of \<open>handleProcessImages\<close> that passes its
  guards, on a page with distinct ids and exactly three pending images \<open>a\<close>, \<open>b\<close>,
  \<open>c\<close>, does exactly this: it sets all three images to \<^verbatim>\<open>processing\<close> in one
  update; then it calls the AI client for \<open>a\<close>, \<open>b\<close> and \<open>c\<close> in turn, waiting
  2000 ms before the second and the third call (two waits), and after each call it moves
  that image, and no other, from \<^verbatim>\<open>processing\<close> to \<^verbatim>\<open>complete\<close> or
  \<^verbatim>\<open>error\<close>. The five image lists are the one before the run and the one after
  each update.
\<close>

theorem handleProcessImages_three_pending:
  assumes "apiKey p \<noteq> []" and "canGenerateMetadata p"
      and "distinct (map image_id (images p))"
      and "filter (\<lambda>img. status img = Pending) (images p) = [a, b, c]"
  shows "let ra = analyzeImageWithGemini (w 0) (image_file a) (apiKey p) (options p);
             rb = analyzeImageWithGemini (w 1) (image_file b) (apiKey p) (options p);
             rc = analyzeImageWithGemini (w 2) (image_file c) (apiKey p) (options p);
             s0 = markProcessing (images p);
             s1 = storeResult (options p) a ra s0;
             s2 = storeResult (options p) b rb s1;
             s3 = storeResult (options p) c rc s2
         in handleProcessImages p True w =
              [IncrementCredits, SetIsProcessing True, SetImages s0,
               Analyze (image_file a), SetImages s1,
               Delay 2000, Analyze (image_file b), SetImages s2,
               Delay 2000, Analyze (image_file c), SetImages s3,
               Toast AllImagesProcessed, SetIsProcessing False] \<and>
            delays (handleProcessImages p True w) = [2000, 2000] \<and>
            analyzedFiles (handleProcessImages p True w) = [image_file a, image_file b, image_file c] \<and>
            map (statusOf (image_id a)) [images p, s0, s1, s2, s3] =
              [[Pending], [Processing], [outcome ra], [outcome ra], [outcome ra]] \<and>
            map (statusOf (image_id b)) [images p, s0, s1, s2, s3] =
              [[Pending], [Processing], [Processing], [outcome rb], [outcome rb]] \<and>
            map (statusOf (image_id c)) [images p, s0, s1, s2, s3] =
              [[Pending], [Processing], [Processing], [Processing], [outcome rc]] \<and>
            (outcome ra = Complete \<or> outcome ra = Error) \<and>
            (outcome rb = Complete \<or> outcome rb = Error) \<and>
            (outcome rc = Complete \<or> outcome rc = Error)"
proof -
  from pending_members [OF assms(3,4)]
  have a: "a \<in> set (images p)" and b: "b \<in> set (images p)" and c: "c \<in> set (images p)"
    and st: "status a = Pending" "status b = Pending" "status c = Pending"
    and ne: "image_id a \<noteq> image_id b" "image_id a \<noteq> image_id c" "image_id b \<noteq> image_id c"
    by blast+
  have acts: "handleProcessImages p True w =
      [IncrementCredits, SetIsProcessing True, SetImages (markProcessing (images p))] @
      processLoop w (apiKey p) (options p) 0 [a, b, c] (markProcessing (images p)) @
      [Toast AllImagesProcessed, SetIsProcessing False]"
    using assms(1,2,4) by (simp add: handleProcessImages_def Let_def)
  have sa: "statusOf (image_id a) (images p) = [Pending]"
    using statusOf_distinct [OF assms(3) a] st by simp
  have sb: "statusOf (image_id b) (images p) = [Pending]"
    using statusOf_distinct [OF assms(3) b] st by simp
  have sc: "statusOf (image_id c) (images p) = [Pending]"
    using statusOf_distinct [OF assms(3) c] st by simp
  have o: "outcome r = Complete \<or> outcome r = Error" for r by (simp add: outcome_def)
  show ?thesis
    unfolding Let_def acts
    using ne ne [symmetric] o
    by (simp add: Let_def statusOf_markProcessing statusOf_storeResult sa sb sc numeral_2_eq_2)
qed

text \<open>
  A witness for C1: three pending images and an endpoint that answers every request with
  an HTTP error. The four updates show the second image as processing, processing, error,
  error.
\<close>

theorem handleProcessImages_three_pending_witness:
  "apiKey examplePage \<noteq> [] \<and> canGenerateMetadata examplePage \<and>
   distinct (map image_id (images examplePage)) \<and>
   filter (\<lambda>img. status img = Pending) (images examplePage) = [image1, image2, image3] \<and>
   delays (handleProcessImages examplePage True (\<lambda>i. quotaWorld)) = [2000, 2000] \<and>
   analyzedFiles (handleProcessImages examplePage True (\<lambda>i. quotaWorld))
     = [image_file image1, image_file image2, image_file image3] \<and>
   map (statusOf (image_id image2)) (snapshots (handleProcessImages examplePage True (\<lambda>i. quotaWorld)))
     = [[Processing], [Processing], [Error], [Error]]"
proof -
  have e: "outcome (analyzeImageWithGemini quotaWorld f key opts) = Error" for f key opts
    by (rule quotaWorld_outcome)
  from handleProcessImages_three_pending
         [OF examplePage_guards examplePage_distinct examplePage_pending, of "\<lambda>i. quotaWorld"]
  show ?thesis
    using examplePage_guards examplePage_distinct examplePage_pending
    by (simp add: Let_def e)
qed

text \<open>
  Claim C1 as stated fails: in the first update of that run the three images, of
  distinct ids, are all in the status \<^verbatim>\<open>processing\<close> at once.
\<close>

theorem all_processing_at_once_counterexample:
  "map status (hd (snapshots (handleProcessImages examplePage True (\<lambda>i. quotaWorld))))
     = [Processing, Processing, Processing] \<and>
   distinct (map image_id (hd (snapshots (handleProcessImages examplePage True (\<lambda>i. quotaWorld)))))"
proof -
  have "hd (snapshots (handleProcessImages examplePage True (\<lambda>i. quotaWorld))) =
        markProcessing (images examplePage)"
    using examplePage_guards examplePage_pending
    by (simp add: handleProcessImages_def Let_def)
  then show ?thesis
    using examplePage_distinct
    by (simp add: ids_markProcessing)
       (simp add: markProcessing_def examplePage_def image1_def image2_def image3_def
          examplePending_def)
qed

text \<open>
  Beside C1, for a batch of any size: a run that passes its guards calls the AI client
  once for each pending image, in the order of the list, and waits 2000 ms between two
  calls, so one time fewer than there are pending images.
\<close>

theorem handleProcessImages_calls_and_delays:
  assumes "apiKey p \<noteq> []" and "canGenerateMetadata p"
      and "pend = filter (\<lambda>img. status img = Pending) (images p)"
      and "pend \<noteq> []"
  shows "analyzedFiles (handleProcessImages p True w) = map image_file pend \<and>
         delays (handleProcessImages p True w) = replicate (length pend - 1) 2000"
  using assms
  by (simp add: handleProcessImages_def Let_def analyzedFiles_append delays_append
      processLoop_files processLoop_delays)

text \<open>
  A witness: the page of three pending images.
\<close>

theorem handleProcessImages_calls_and_delays_witness:
  "apiKey examplePage \<noteq> [] \<and> canGenerateMetadata examplePage \<and>
   [image1, image2, image3] = filter (\<lambda>img. status img = Pending) (images examplePage) \<and>
   [image1, image2, image3] \<noteq> [] \<and>
   analyzedFiles (handleProcessImages examplePage True w)
     = map image_file [image1, image2, image3] \<and>
   delays (handleProcessImages examplePage True w) = replicate (length [image1, image2, image3] - 1) 2000"
proof -
  have p: "[image1, image2, image3] = filter (\<lambda>img. status img = Pending) (images examplePage)"
    by (simp add: examplePage_pending)
  have n: "[image1, image2, image3] \<noteq> []" by simp
  from handleProcessImages_calls_and_delays [OF examplePage_guards p n, of w]
  show ?thesis using examplePage_guards p n by blast
qed

end
